theory Spec2Isabelle
  imports Main
begin

section \<open>JavaScript values\<close>

text \<open>
  An optional string of the plugin (\<^verbatim>\<open>agent?: string\<close>) is a \<open>string option\<close>, with
  \<open>None\<close> for \<^verbatim>\<open>undefined\<close>. JavaScript's \<^verbatim>\<open>a || b\<close> and \<^verbatim>\<open>x ? .. : ..\<close> test
  truthiness: \<^verbatim>\<open>undefined\<close> and the empty string are falsy, every other string is truthy.
\<close>

definition truthy :: "string option \<Rightarrow> bool" where
  "truthy v = (case v of None \<Rightarrow> False | Some s \<Rightarrow> s \<noteq> [])"

text \<open>\<^verbatim>\<open>a || b\<close> on two optional strings.\<close>

definition js_or :: "string option \<Rightarrow> string option \<Rightarrow> string option" where
  "js_or a b = (if truthy a then a else b)"

text \<open>\<^verbatim>\<open>a || d\<close> where \<open>d\<close> is a string that is always there
  (\<^verbatim>\<open>args.directory || toolCtx.directory\<close>, \<^verbatim>\<open>... || "build"\<close>).\<close>

definition js_or_str :: "string option \<Rightarrow> string \<Rightarrow> string" where
  "js_or_str a d = (case a of None \<Rightarrow> d | Some s \<Rightarrow> if s = [] then d else s)"

text \<open>What a template literal \<^verbatim>\<open>`${v}`\<close> renders for an optional string.\<close>

definition template :: "string option \<Rightarrow> string" where
  "template v = (case v of None \<Rightarrow> ''undefined'' | Some s \<Rightarrow> s)"

text \<open>
  A thrown value. The outer catch of \<^verbatim>\<open>execute\<close> reads
  \<^verbatim>\<open>error instanceof Error ? error.message : String(error)\<close>: an \<open>ErrorObject\<close> carries
  its message, any other thrown value carries what \<^verbatim>\<open>String\<close> makes of it.
\<close>

datatype thrown = ErrorObject string | OtherValue string

fun error_message :: "thrown \<Rightarrow> string" where
  "error_message (ErrorObject m) = m"
| "error_message (OtherValue s) = s"

text \<open>
  \<^verbatim>\<open>JSON.parse\<close> and \<^verbatim>\<open>JSON.stringify\<close> are built into the language and are parameters
  of the model: \<open>'j\<close> is the type of structured values, \<^verbatim>\<open>JSON.parse\<close> either throws
  (\<open>Inl\<close>) or returns one.
\<close>

type_synonym 'j json_parse = "string \<Rightarrow> thrown + 'j"

text \<open>\<^verbatim>\<open>tools ? JSON.parse(tools) : undefined\<close>\<close>

definition parse_tools :: "'j json_parse \<Rightarrow> string option \<Rightarrow> thrown + 'j option" where
  "parse_tools JSON_parse tools =
     (case tools of
        None \<Rightarrow> Inr None
      | Some s \<Rightarrow>
          if s = [] then Inr None
          else (case JSON_parse s of Inl e \<Rightarrow> Inl e | Inr j \<Rightarrow> Inr (Some j)))"

section \<open>The three stores\<close>

record pending_message =
  pm_agent :: "string option"
  pm_modelID :: "string option"
  pm_providerID :: "string option"
  pm_system :: "string option"
  pm_tools :: "string option"
  pm_text :: string
  pm_directory :: string

record compaction_request =
  cr_providerID :: string
  cr_modelID :: string
  cr_agent :: "string option"
  cr_system :: "string option"
  cr_tools :: "string option"
  cr_text :: string
  cr_directory :: string

record compaction_state =
  cs_phase :: string
  cs_agent :: "string option"
  cs_modelID :: "string option"
  cs_providerID :: "string option"
  cs_system :: "string option"
  cs_tools :: "string option"
  cs_text :: string
  cs_directory :: string

text \<open>The three \<^verbatim>\<open>Map\<close>s of the plugin closure, keyed by session id.\<close>

record plugin_state =
  pendingMessages :: "string \<rightharpoonup> pending_message"
  pendingCompactions :: "string \<rightharpoonup> compaction_request"
  activeCompactions :: "string \<rightharpoonup> compaction_state"

section \<open>Calls on the client\<close>

text \<open>The \<^verbatim>\<open>model\<close> object of a prompt body.\<close>

record model_ref =
  mr_modelID :: "string option"
  mr_providerID :: "string option"

text \<open>
  The body of \<^verbatim>\<open>session.prompt\<close> and \<^verbatim>\<open>session.promptAsync\<close>. \<open>pb_parts\<close> holds the
  texts of the parts, all of type \<^verbatim>\<open>"text"\<close>; a field the object literal leaves out or
  sets to \<^verbatim>\<open>undefined\<close> is \<open>None\<close>.
\<close>

record 'j prompt_body =
  pb_agent :: "string option"
  pb_model :: "model_ref option"
  pb_system :: "string option"
  pb_tools :: "'j option"
  pb_noReply :: "bool option"
  pb_parts :: "string list"

text \<open>
  What the plugin asks of its host, in the order it asks: the calls on \<^verbatim>\<open>ctx.client\<close> with
  their path id, query directory and body, and the \<^verbatim>\<open>setTimeout\<close> wait of the
  \<^verbatim>\<open>session.compacted\<close> branch (in milliseconds).
\<close>

datatype 'j call =
    Messages string string
  | Create string string
  | Prompt string string "'j prompt_body"
  | PromptAsync string string "'j prompt_body"
  | Summarize string string string string
  | Fork string string
  | Update string string string
  | ShowToast string string
  | SetTimeout nat

section \<open>The event hook\<close>

text \<open>
  An event as the hook reads it: its \<^verbatim>\<open>type\<close>, and \<^verbatim>\<open>properties.sessionID\<close>, which is
  \<open>None\<close> when the event has no \<^verbatim>\<open>properties\<close> or they have no \<^verbatim>\<open>sessionID\<close>.
\<close>

record lifecycle_event =
  ev_type :: string
  ev_sessionID :: "string option"

text \<open>\<^verbatim>\<open>modelID && providerID ? { modelID, providerID } : undefined\<close>\<close>

definition staged_model :: "string option \<Rightarrow> string option \<Rightarrow> model_ref option" where
  "staged_model modelID providerID =
     (if truthy modelID \<and> truthy providerID
      then Some \<lparr>mr_modelID = modelID, mr_providerID = providerID\<rparr>
      else None)"

text \<open>
  The \<^verbatim>\<open>session.idle\<close> branch. \<open>Some\<close> is a \<^verbatim>\<open>return\<close> of the hook, \<open>None\<close> is
  falling through to the code after the branch. The arguments of \<^verbatim>\<open>session.prompt\<close> are
  evaluated inside the \<^verbatim>\<open>try\<close>, so a \<^verbatim>\<open>JSON.parse\<close> that throws leaves the call unmade
  and is swallowed by the \<^verbatim>\<open>catch\<close>, as is a rejection of the call itself.
\<close>

definition idle :: "'j json_parse \<Rightarrow> string \<Rightarrow> plugin_state \<Rightarrow> (plugin_state \<times> 'j call list) option" where
  "idle JSON_parse sessionID st =
     (case pendingMessages st sessionID of
        Some pendingMessage \<Rightarrow>
          Some (st\<lparr>pendingMessages := (pendingMessages st)(sessionID := None)\<rparr>,
                (case parse_tools JSON_parse (pm_tools pendingMessage) of
                   Inl error \<Rightarrow> []
                 | Inr tools \<Rightarrow>
                     [Prompt sessionID (pm_directory pendingMessage)
                        \<lparr>pb_agent = pm_agent pendingMessage,
                         pb_model = staged_model (pm_modelID pendingMessage) (pm_providerID pendingMessage),
                         pb_system = pm_system pendingMessage,
                         pb_tools = tools,
                         pb_noReply = None,
                         pb_parts = [pm_text pendingMessage]\<rparr>]))
      | None \<Rightarrow>
          (case pendingCompactions st sessionID of
             Some pendingCompaction \<Rightarrow>
               Some (st\<lparr>pendingCompactions := (pendingCompactions st)(sessionID := None),
                        activeCompactions := (activeCompactions st)(sessionID \<mapsto>
                          \<lparr>cs_phase = ''compacting'',
                           cs_agent = cr_agent pendingCompaction,
                           cs_modelID = Some (cr_modelID pendingCompaction),
                           cs_providerID = Some (cr_providerID pendingCompaction),
                           cs_system = cr_system pendingCompaction,
                           cs_tools = cr_tools pendingCompaction,
                           cs_text = cr_text pendingCompaction,
                           cs_directory = cr_directory pendingCompaction\<rparr>)\<rparr>,
                     [Summarize sessionID (cr_directory pendingCompaction)
                        (cr_providerID pendingCompaction) (cr_modelID pendingCompaction)])
           | None \<Rightarrow> None))"

text \<open>
  The \<^verbatim>\<open>.catch\<close> callback on the promise of \<^verbatim>\<open>session.summarize\<close>, which the hook does
  not await: it runs when (and if) the call is rejected, on the stores as they are then.
\<close>

definition summarize_catch :: "string \<Rightarrow> plugin_state \<Rightarrow> plugin_state \<times> 'j call list" where
  "summarize_catch sessionID st =
     (st\<lparr>activeCompactions := (activeCompactions st)(sessionID := None)\<rparr>, [])"

text \<open>The \<^verbatim>\<open>session.compacted\<close> branch: the wait comes before the arguments of the prompt
  are evaluated.\<close>

definition compacted :: "'j json_parse \<Rightarrow> string \<Rightarrow> plugin_state \<Rightarrow> plugin_state \<times> 'j call list" where
  "compacted JSON_parse sessionID st =
     (case activeCompactions st sessionID of
        Some state \<Rightarrow>
          (st\<lparr>activeCompactions := (activeCompactions st)(sessionID := None)\<rparr>,
           SetTimeout 100 #
             (case parse_tools JSON_parse (cs_tools state) of
                Inl error \<Rightarrow> []
              | Inr tools \<Rightarrow>
                  [Prompt sessionID (cs_directory state)
                     \<lparr>pb_agent = cs_agent state,
                      pb_model = staged_model (cs_modelID state) (cs_providerID state),
                      pb_system = cs_system state,
                      pb_tools = tools,
                      pb_noReply = None,
                      pb_parts = [cs_text state]\<rparr>]))
      | None \<Rightarrow> (st, []))"

text \<open>The hook: the stores after it has run, and the calls it made.\<close>

definition event :: "'j json_parse \<Rightarrow> lifecycle_event \<Rightarrow> plugin_state \<Rightarrow> plugin_state \<times> 'j call list" where
  "event JSON_parse ev st =
     (case ev_sessionID ev of
        None \<Rightarrow> (st, [])
      | Some sessionID \<Rightarrow>
          (case (if ev_type ev = ''session.idle'' then idle JSON_parse sessionID st else None) of
             Some returned \<Rightarrow> returned
           | None \<Rightarrow>
               if ev_type ev = ''session.compacted'' then compacted JSON_parse sessionID st
               else (st, [])))"

text \<open>
  What the plugin does when a call the hook did not await settles: only
  \<^verbatim>\<open>session.summarize\<close> has a handler, and only for rejection.
\<close>

fun settled :: "'j call \<Rightarrow> bool \<Rightarrow> plugin_state \<Rightarrow> plugin_state \<times> 'j call list" where
  "settled (Summarize sessionID directory providerID modelID) rejected st =
     (if rejected then summarize_catch sessionID st else (st, []))"
| "settled c rejected st = (st, [])"

section \<open>The session tool\<close>

datatype mode = Message | New | Compact | Fork_mode

text \<open>The arguments of the tool, as its schema types them; the directory and session
  of the invoking turn.\<close>

record session_args =
  a_text :: string
  a_mode :: mode
  a_agent :: "string option"
  a_directory :: "string option"
  a_title :: "string option"
  a_modelID :: "string option"
  a_providerID :: "string option"
  a_system :: "string option"
  a_tools :: "string option"
  a_async :: "bool option"

record tool_context =
  tc_sessionID :: string
  tc_directory :: string

text \<open>
  The \<^verbatim>\<open>info\<close> of a message as the tool reads it; \<open>m_tools\<close> is the structured
  permission map, an object (so truthy) whenever it is there.
\<close>

record 'j message =
  m_role :: string
  m_agent :: "string option"
  m_modelID :: "string option"
  m_providerID :: "string option"
  m_system :: "string option"
  m_tools :: "'j option"

text \<open>
  The host behind \<^verbatim>\<open>ctx.client\<close>, one field per operation the tool awaits. \<open>Inl e\<close>:
  the awaited call, or the read of \<^verbatim>\<open>.data\<close> of what it returned, throws \<open>e\<close>.
  \<open>session_create\<close> and \<open>session_fork\<close> return \<^verbatim>\<open>data.id\<close>, \<open>session_messages\<close>
  returns \<^verbatim>\<open>data\<close>.
\<close>

record 'j client =
  session_messages :: "string \<Rightarrow> string \<Rightarrow> thrown + 'j message list"
  session_create :: "string \<Rightarrow> string \<Rightarrow> thrown + string"
  session_prompt :: "string \<Rightarrow> string \<Rightarrow> 'j prompt_body \<Rightarrow> thrown + unit"
  session_promptAsync :: "string \<Rightarrow> string \<Rightarrow> 'j prompt_body \<Rightarrow> thrown + unit"
  session_fork :: "string \<Rightarrow> string \<Rightarrow> thrown + string"
  session_update :: "string \<Rightarrow> string \<Rightarrow> string \<Rightarrow> thrown + unit"
  tui_showToast :: "string \<Rightarrow> string \<Rightarrow> thrown + unit"

text \<open>What the host answers to a call the tool awaits: the value thrown, if any.\<close>

fun thrown_by :: "'j client \<Rightarrow> 'j call \<Rightarrow> thrown option" where
  "thrown_by c (Messages sid dir) =
     (case session_messages c sid dir of Inl e \<Rightarrow> Some e | Inr _ \<Rightarrow> None)"
| "thrown_by c (Create dir title) =
     (case session_create c dir title of Inl e \<Rightarrow> Some e | Inr _ \<Rightarrow> None)"
| "thrown_by c (Prompt sid dir body) =
     (case session_prompt c sid dir body of Inl e \<Rightarrow> Some e | Inr _ \<Rightarrow> None)"
| "thrown_by c (PromptAsync sid dir body) =
     (case session_promptAsync c sid dir body of Inl e \<Rightarrow> Some e | Inr _ \<Rightarrow> None)"
| "thrown_by c (Fork sid dir) =
     (case session_fork c sid dir of Inl e \<Rightarrow> Some e | Inr _ \<Rightarrow> None)"
| "thrown_by c (Update sid dir title) =
     (case session_update c sid dir title of Inl e \<Rightarrow> Some e | Inr _ \<Rightarrow> None)"
| "thrown_by c (ShowToast message variant) =
     (case tui_showToast c message variant of Inl e \<Rightarrow> Some e | Inr _ \<Rightarrow> None)"
| "thrown_by c (Summarize sid dir providerID modelID) = None"
| "thrown_by c (SetTimeout ms) = None"

subsection \<open>Context inheritance\<close>

text \<open>\<^verbatim>\<open>msgs.data.filter((m) => m.info.role === "assistant").pop()\<close>\<close>

definition lastAssistant :: "'j message list \<Rightarrow> 'j message option" where
  "lastAssistant data =
     (let assistants = filter (\<lambda>m. m_role m = ''assistant'') data
      in if assistants = [] then None else Some (last assistants))"

record inherited =
  inheritedAgent :: "string option"
  inheritedModelID :: "string option"
  inheritedProviderID :: "string option"
  inheritedSystem :: "string option"
  inheritedTools :: "string option"

definition inherit :: "('j \<Rightarrow> string) \<Rightarrow> 'j message option \<Rightarrow> inherited" where
  "inherit JSON_stringify la =
     \<lparr>inheritedAgent = Option.bind la m_agent,
      inheritedModelID = Option.bind la m_modelID,
      inheritedProviderID = Option.bind la m_providerID,
      inheritedSystem = Option.bind la m_system,
      inheritedTools =
        (case Option.bind la m_tools of
           None \<Rightarrow> None
         | Some tools \<Rightarrow> Some (JSON_stringify tools))\<rparr>"

subsection \<open>The four modes\<close>

text \<open>
  Each mode gives what the \<^verbatim>\<open>case\<close> returns (\<open>Inr\<close>) or throws (\<open>Inl\<close>), the stores
  afterwards and the calls it made. A mode touches the stores at most once, by one
  \<^verbatim>\<open>set\<close> after its last \<^verbatim>\<open>await\<close>; \<open>st\<close> is the stores at that moment.
\<close>

type_synonym 'j ran = "(thrown + string) \<times> plugin_state \<times> 'j call list"

definition mode_message :: "session_args \<Rightarrow> tool_context \<Rightarrow> inherited \<Rightarrow> string \<Rightarrow> plugin_state \<Rightarrow> 'j ran" where
  "mode_message args toolCtx inh targetDirectory st =
     (Inr (if truthy (a_agent args)
           then ''Message sent to '' @ template (a_agent args)
                  @ '' agent. They will respond in this conversation.''
           else ''Message sent. Awaiting response in this conversation.''),
      st\<lparr>pendingMessages := (pendingMessages st)(tc_sessionID toolCtx \<mapsto>
            \<lparr>pm_agent = js_or (a_agent args) (inheritedAgent inh),
             pm_modelID = js_or (a_modelID args) (inheritedModelID inh),
             pm_providerID = js_or (a_providerID args) (inheritedProviderID inh),
             pm_system = js_or (a_system args) (inheritedSystem inh),
             pm_tools = js_or (a_tools args) (inheritedTools inh),
             pm_text = a_text args,
             pm_directory = targetDirectory\<rparr>)\<rparr>,
      [])"

text \<open>
  The first prompt into a new or forked session; the two modes build the same body and
  make the same choice between \<^verbatim>\<open>promptAsync\<close> and \<^verbatim>\<open>prompt\<close>.
\<close>

definition first_body :: "session_args \<Rightarrow> inherited \<Rightarrow> string \<Rightarrow> 'j option \<Rightarrow> 'j prompt_body" where
  "first_body args inh agent tools =
     \<lparr>pb_agent = Some agent,
      pb_model =
        (if truthy (js_or (a_modelID args) (inheritedModelID inh))
         then Some \<lparr>mr_modelID = js_or (a_modelID args) (inheritedModelID inh),
                    mr_providerID = js_or (a_providerID args) (inheritedProviderID inh)\<rparr>
         else None),
      pb_system = js_or (a_system args) (inheritedSystem inh),
      pb_tools = tools,
      pb_noReply = None,
      pb_parts = [a_text args]\<rparr>"

definition first_prompt :: "'j client \<Rightarrow> 'j json_parse \<Rightarrow> session_args \<Rightarrow> inherited \<Rightarrow> string \<Rightarrow> string \<Rightarrow> string \<Rightarrow> (thrown + unit) \<times> 'j call list" where
  "first_prompt client JSON_parse args inh sid targetDirectory agent =
     (case parse_tools JSON_parse (js_or (a_tools args) (inheritedTools inh)) of
        Inl e \<Rightarrow> (Inl e, [])
      | Inr tools \<Rightarrow>
          if a_async args = Some True
          then (session_promptAsync client sid targetDirectory (first_body args inh agent tools),
                [PromptAsync sid targetDirectory (first_body args inh agent tools)])
          else (session_prompt client sid targetDirectory (first_body args inh agent tools),
                [Prompt sid targetDirectory (first_body args inh agent tools)]))"

definition new_title :: "session_args \<Rightarrow> inherited \<Rightarrow> string" where
  "new_title args inh =
     js_or_str (a_title args)
       (if truthy (js_or (a_agent args) (inheritedAgent inh))
        then ''Session via '' @ template (js_or (a_agent args) (inheritedAgent inh))
        else ''New session'')"

definition mode_new :: "'j client \<Rightarrow> 'j json_parse \<Rightarrow> session_args \<Rightarrow> inherited \<Rightarrow> string \<Rightarrow> plugin_state \<Rightarrow> 'j ran" where
  "mode_new client JSON_parse args inh targetDirectory st =
     (case session_create client targetDirectory (new_title args inh) of
        Inl e \<Rightarrow> (Inl e, st, [Create targetDirectory (new_title args inh)])
      | Inr newSession \<Rightarrow>
          (let agent = js_or_str (js_or (a_agent args) (inheritedAgent inh)) ''build''
           in case first_prompt client JSON_parse args inh newSession targetDirectory agent of
                (Inl e, calls) \<Rightarrow> (Inl e, st, Create targetDirectory (new_title args inh) # calls)
              | (Inr u, calls) \<Rightarrow>
                  (Inr (if a_async args = Some True
                        then ''New session created with '' @ agent
                               @ '' agent (async prompt, ID: '' @ newSession @ '')''
                        else ''New session created with '' @ agent
                               @ '' agent (ID: '' @ newSession @ '')''),
                   st, Create targetDirectory (new_title args inh) # calls)))"

text \<open>The no-reply marker that compact mode injects before it stages anything.\<close>

definition marker :: "session_args \<Rightarrow> 'j prompt_body" where
  "marker args =
     \<lparr>pb_agent = None, pb_model = None, pb_system = None, pb_tools = None,
      pb_noReply = Some True,
      pb_parts =
        [if truthy (a_agent args)
         then ''[Session will compact after this response - ''
                @ template (a_agent args) @ '' agent will continue]''
         else ''[Session will compact after this response]'']\<rparr>"

text \<open>
  \<^verbatim>\<open>if (!providerID || !modelID) return "Error: ..."\<close>: past the guard both are non-empty
  strings, which is what the staged request stores. The inner \<^verbatim>\<open>try\<close> only rethrows.
\<close>

definition mode_compact :: "'j client \<Rightarrow> session_args \<Rightarrow> tool_context \<Rightarrow> inherited \<Rightarrow> string \<Rightarrow> plugin_state \<Rightarrow> 'j ran" where
  "mode_compact client args toolCtx inh targetDirectory st =
     (case (js_or (a_providerID args) (inheritedProviderID inh),
            js_or (a_modelID args) (inheritedModelID inh)) of
        (Some providerID, Some modelID) \<Rightarrow>
          if providerID = [] \<or> modelID = []
          then (Inr ''Error: No assistant messages found in session. Cannot determine model for compaction.'', st, [])
          else
            (case session_prompt client (tc_sessionID toolCtx) targetDirectory (marker args) of
               Inl e \<Rightarrow> (Inl e, st, [Prompt (tc_sessionID toolCtx) targetDirectory (marker args)])
             | Inr u \<Rightarrow>
                 (Inr (if truthy (a_agent args)
                       then ''I'' @ [CHR 0x27] @ ''ll compact the session after completing this response, then hand off to ''
                              @ template (a_agent args) @ ''.''
                       else ''I'' @ [CHR 0x27] @ ''ll compact the session after completing this response.''),
                  st\<lparr>pendingCompactions := (pendingCompactions st)(tc_sessionID toolCtx \<mapsto>
                        \<lparr>cr_providerID = providerID,
                         cr_modelID = modelID,
                         cr_agent = js_or (a_agent args) (inheritedAgent inh),
                         cr_system = js_or (a_system args) (inheritedSystem inh),
                         cr_tools = js_or (a_tools args) (inheritedTools inh),
                         cr_text = a_text args,
                         cr_directory = targetDirectory\<rparr>)\<rparr>,
                  [Prompt (tc_sessionID toolCtx) targetDirectory (marker args)]))
      | _ \<Rightarrow> (Inr ''Error: No assistant messages found in session. Cannot determine model for compaction.'', st, []))"

definition mode_fork :: "'j client \<Rightarrow> 'j json_parse \<Rightarrow> session_args \<Rightarrow> tool_context \<Rightarrow> inherited \<Rightarrow> string \<Rightarrow> plugin_state \<Rightarrow> 'j ran" where
  "mode_fork client JSON_parse args toolCtx inh targetDirectory st =
     (case session_fork client (tc_sessionID toolCtx) targetDirectory of
        Inl e \<Rightarrow> (Inl e, st, [Fork (tc_sessionID toolCtx) targetDirectory])
      | Inr forkedSession \<Rightarrow>
          (case (if truthy (a_title args)
                 then (session_update client forkedSession targetDirectory (template (a_title args)),
                       [Update forkedSession targetDirectory (template (a_title args))])
                 else (Inr (), [])) of
             (Inl e, retitle) \<Rightarrow> (Inl e, st, Fork (tc_sessionID toolCtx) targetDirectory # retitle)
           | (Inr u, retitle) \<Rightarrow>
               (let forkedAgent = js_or_str (js_or (a_agent args) (inheritedAgent inh)) ''build''
                in case first_prompt client JSON_parse args inh forkedSession targetDirectory forkedAgent of
                     (Inl e, calls) \<Rightarrow>
                       (Inl e, st, Fork (tc_sessionID toolCtx) targetDirectory # retitle @ calls)
                   | (Inr u', calls) \<Rightarrow>
                       (Inr (if a_async args = Some True
                             then ''Forked session with '' @ forkedAgent
                                    @ '' agent (async prompt) - history preserved (ID: ''
                                    @ forkedSession @ '')''
                             else ''Forked session with '' @ forkedAgent
                                    @ '' agent - history preserved (ID: '' @ forkedSession @ '')''),
                        st, Fork (tc_sessionID toolCtx) targetDirectory # retitle @ calls))))"

subsection \<open>execute\<close>

text \<open>The body of the outer \<^verbatim>\<open>try\<close>: the fetch of the history, then the \<^verbatim>\<open>switch\<close>.\<close>

definition execute_try :: "'j client \<Rightarrow> 'j json_parse \<Rightarrow> ('j \<Rightarrow> string) \<Rightarrow> session_args \<Rightarrow> tool_context \<Rightarrow> plugin_state \<Rightarrow> 'j ran" where
  "execute_try client JSON_parse JSON_stringify args toolCtx st =
     (let targetDirectory = js_or_str (a_directory args) (tc_directory toolCtx)
      in case session_messages client (tc_sessionID toolCtx) (tc_directory toolCtx) of
           Inl e \<Rightarrow> (Inl e, st, [Messages (tc_sessionID toolCtx) (tc_directory toolCtx)])
         | Inr data \<Rightarrow>
             (let inh = inherit JSON_stringify (lastAssistant data);
                  (result, st', calls) =
                    (case a_mode args of
                       Message \<Rightarrow> mode_message args toolCtx inh targetDirectory st
                     | New \<Rightarrow> mode_new client JSON_parse args inh targetDirectory st
                     | Compact \<Rightarrow> mode_compact client args toolCtx inh targetDirectory st
                     | Fork_mode \<Rightarrow> mode_fork client JSON_parse args toolCtx inh targetDirectory st)
              in (result, st', Messages (tc_sessionID toolCtx) (tc_directory toolCtx) # calls)))"

text \<open>
  \<^verbatim>\<open>execute\<close>: the \<^verbatim>\<open>try\<close> and its \<^verbatim>\<open>catch\<close>. The toast is awaited inside the
  \<^verbatim>\<open>catch\<close>, outside any \<^verbatim>\<open>try\<close>: when it throws, what it throws leaves
  \<^verbatim>\<open>execute\<close> (\<open>Inl\<close>).
\<close>

definition execute :: "'j client \<Rightarrow> 'j json_parse \<Rightarrow> ('j \<Rightarrow> string) \<Rightarrow> session_args \<Rightarrow> tool_context \<Rightarrow> plugin_state \<Rightarrow> 'j ran" where
  "execute client JSON_parse JSON_stringify args toolCtx st =
     (case execute_try client JSON_parse JSON_stringify args toolCtx st of
        (Inr returned, st', calls) \<Rightarrow> (Inr returned, st', calls)
      | (Inl error, st', calls) \<Rightarrow>
          (let message = error_message error
           in case tui_showToast client (''Session operation failed: '' @ message) ''error'' of
                Inl e \<Rightarrow>
                  (Inl e, st', calls @ [ShowToast (''Session operation failed: '' @ message) ''error''])
              | Inr u \<Rightarrow>
                  (Inr (''Error: '' @ message), st',
                   calls @ [ShowToast (''Session operation failed: '' @ message) ''error''])))"

section \<open>Sample hosts and inputs\<close>

text \<open>
  Closed instances of the theorems below run on these. Structured values are permission
  maps, as \<^verbatim>\<open>{"read":true}\<close>. \<open>JSON_parse_sample\<close> is a table of \<^verbatim>\<open>JSON.parse\<close> on the
  three texts the instances feed it: the objects \<^verbatim>\<open>{}\<close> and \<^verbatim>\<open>{"read":true}\<close>, and
  \<^verbatim>\<open>not json\<close>, on which \<^verbatim>\<open>JSON.parse\<close> throws a \<^verbatim>\<open>SyntaxError\<close>; it says nothing
  about any other text. \<open>JSON_stringify_sample\<close> writes a permission map whose keys need
  no escaping.
\<close>

type_synonym permissions = "(string \<times> bool) list"

definition JSON_parse_sample :: "permissions json_parse" where
  "JSON_parse_sample s =
     (if s = ''{}'' then Inr []
      else if s = ''{'' @ [CHR 0x22] @ ''read'' @ [CHR 0x22] @ '':true}'' then Inr [(''read'', True)]
      else Inl (ErrorObject ''JSON Parse error: Unexpected identifier''))"

fun members :: "permissions \<Rightarrow> string" where
  "members [] = []"
| "members [(k, b)] = [CHR 0x22] @ k @ [CHR 0x22] @ '':'' @ (if b then ''true'' else ''false'')"
| "members ((k, b) # rest) =
     [CHR 0x22] @ k @ [CHR 0x22] @ '':'' @ (if b then ''true'' else ''false'') @ '','' @ members rest"

definition JSON_stringify_sample :: "permissions \<Rightarrow> string" where
  "JSON_stringify_sample m = ''{'' @ members m @ ''}''"

text \<open>
  A host that returns \<open>data\<close> as the history of every session. When \<open>up\<close> it creates
  \<^verbatim>\<open>ses_2\<close>, forks into \<^verbatim>\<open>ses_3\<close> and accepts every prompt and title; otherwise each
  of these calls throws. \<open>toast_up\<close> says the same of the toast.
\<close>

definition refused :: thrown where
  "refused = ErrorObject ''Unable to connect''"

definition sample_host :: "permissions message list \<Rightarrow> bool \<Rightarrow> bool \<Rightarrow> permissions client" where
  "sample_host data up toast_up =
     \<lparr>session_messages = (\<lambda>sid dir. Inr data),
      session_create = (\<lambda>dir title. if up then Inr ''ses_2'' else Inl refused),
      session_prompt = (\<lambda>sid dir body. if up then Inr () else Inl refused),
      session_promptAsync = (\<lambda>sid dir body. if up then Inr () else Inl refused),
      session_fork = (\<lambda>sid dir. if up then Inr ''ses_3'' else Inl refused),
      session_update = (\<lambda>sid dir title. if up then Inr () else Inl refused),
      tui_showToast = (\<lambda>message variant. if toast_up then Inr () else Inl refused)\<rparr>"

definition user_turn :: "permissions message" where
  "user_turn =
     \<lparr>m_role = ''user'', m_agent = None, m_modelID = None, m_providerID = None,
      m_system = None, m_tools = None\<rparr>"

definition plan_turn :: "permissions message" where
  "plan_turn =
     \<lparr>m_role = ''assistant'', m_agent = Some ''plan'', m_modelID = Some ''m-old'',
      m_providerID = Some ''p-old'', m_system = Some ''be brief'',
      m_tools = Some [(''read'', True)]\<rparr>"

definition build_turn :: "permissions message" where
  "build_turn =
     \<lparr>m_role = ''assistant'', m_agent = Some ''build'', m_modelID = Some ''m-1'',
      m_providerID = Some ''p-1'', m_system = None, m_tools = None\<rparr>"

definition here :: tool_context where
  "here = \<lparr>tc_sessionID = ''ses_1'', tc_directory = ''/work''\<rparr>"

definition no_entries :: plugin_state where
  "no_entries =
     \<lparr>pendingMessages = Map.empty, pendingCompactions = Map.empty,
      activeCompactions = Map.empty\<rparr>"

text \<open>A call of the tool with only its text and mode given.\<close>

definition plain :: "mode \<Rightarrow> string \<Rightarrow> session_args" where
  "plain m text =
     \<lparr>a_text = text, a_mode = m, a_agent = None, a_directory = None, a_title = None,
      a_modelID = None, a_providerID = None, a_system = None, a_tools = None,
      a_async = None\<rparr>"

definition idle_event :: "string \<Rightarrow> lifecycle_event" where
  "idle_event sid = \<lparr>ev_type = ''session.idle'', ev_sessionID = Some sid\<rparr>"

definition compacted_event :: "string \<Rightarrow> lifecycle_event" where
  "compacted_event sid = \<lparr>ev_type = ''session.compacted'', ev_sessionID = Some sid\<rparr>"

text \<open>Entries as the tool stages them, and stores that hold them.\<close>

definition relay_entry :: pending_message where
  "relay_entry =
     \<lparr>pm_agent = Some ''plan'', pm_modelID = Some ''m-1'', pm_providerID = Some ''p-1'',
      pm_system = None, pm_tools = Some ''{}'', pm_text = ''hello'', pm_directory = ''/work''\<rparr>"

definition compaction_entry :: compaction_request where
  "compaction_entry =
     \<lparr>cr_providerID = ''p-1'', cr_modelID = ''m-1'', cr_agent = Some ''plan'',
      cr_system = None, cr_tools = Some ''{}'', cr_text = ''carry on'',
      cr_directory = ''/work''\<rparr>"

definition both_staged :: plugin_state where
  "both_staged =
     \<lparr>pendingMessages = [''ses_1'' \<mapsto> relay_entry],
      pendingCompactions = [''ses_1'' \<mapsto> compaction_entry],
      activeCompactions = Map.empty\<rparr>"

definition compaction_staged :: plugin_state where
  "compaction_staged =
     \<lparr>pendingMessages = Map.empty,
      pendingCompactions = [''ses_1'' \<mapsto> compaction_entry],
      activeCompactions = Map.empty\<rparr>"

text \<open>The stores after a relay was staged with a tools string that is not JSON.\<close>

definition unparsed_relay :: plugin_state where
  "unparsed_relay =
     fst (snd (execute (sample_host [user_turn] True True) JSON_parse_sample JSON_stringify_sample
                 ((plain Message ''hello'')\<lparr>a_tools := Some ''not json''\<rparr>) here no_entries))"

text \<open>The stores after a compaction was staged with such a tools string and the session
  went idle.\<close>

definition unparsed_compaction :: plugin_state where
  "unparsed_compaction =
     fst (event JSON_parse_sample (idle_event ''ses_1'')
       (fst (snd (execute (sample_host [user_turn] True True) JSON_parse_sample JSON_stringify_sample
                    ((plain Compact ''carry on'')
                       \<lparr>a_providerID := Some ''p-1'', a_modelID := Some ''m-1'',
                        a_tools := Some ''not json''\<rparr>) here no_entries))))"

section \<open>Unfolding lemmas\<close>

lemma event_idle:
  "ev_type ev = ''session.idle'' \<Longrightarrow> ev_sessionID ev = Some S \<Longrightarrow>
   event P ev st = (case idle P S st of Some r \<Rightarrow> r | None \<Rightarrow> (st, []))"
  by (simp add: event_def split: option.splits)

lemma event_compacted:
  "ev_type ev = ''session.compacted'' \<Longrightarrow> ev_sessionID ev = Some S \<Longrightarrow>
   event P ev st = compacted P S st"
  by (simp add: event_def)

lemmas js_defs =
  truthy_def js_or_def js_or_str_def template_def parse_tools_def staged_model_def Let_def

lemmas tool_defs =
  execute_def execute_try_def mode_message_def mode_new_def mode_compact_def mode_fork_def
  first_prompt_def first_body_def new_title_def marker_def inherit_def lastAssistant_def

lemmas hook_defs = event_def idle_def compacted_def

lemmas host_defs =
  JSON_parse_sample_def JSON_stringify_sample_def sample_host_def refused_def user_turn_def
  here_def no_entries_def plain_def idle_event_def

lemma execute_try_fetched:
  assumes "session_messages client (tc_sessionID toolCtx) (tc_directory toolCtx) = Inr data"
  shows "execute_try client P Sf args toolCtx st =
    (case (case a_mode args of
             Message \<Rightarrow> mode_message args toolCtx (inherit Sf (lastAssistant data))
                          (js_or_str (a_directory args) (tc_directory toolCtx)) st
           | New \<Rightarrow> mode_new client P args (inherit Sf (lastAssistant data))
                          (js_or_str (a_directory args) (tc_directory toolCtx)) st
           | Compact \<Rightarrow> mode_compact client args toolCtx (inherit Sf (lastAssistant data))
                          (js_or_str (a_directory args) (tc_directory toolCtx)) st
           | Fork_mode \<Rightarrow> mode_fork client P args toolCtx (inherit Sf (lastAssistant data))
                          (js_or_str (a_directory args) (tc_directory toolCtx)) st) of
       (result, st', calls) \<Rightarrow>
         (result, st', Messages (tc_sessionID toolCtx) (tc_directory toolCtx) # calls))"
  using assms by (simp add: execute_try_def Let_def)

lemma mode_compact_guard:
  assumes "\<not> truthy (js_or (a_providerID args) (inheritedProviderID inh))
         \<or> \<not> truthy (js_or (a_modelID args) (inheritedModelID inh))"
  shows "mode_compact client args toolCtx inh dir st =
    (Inr ''Error: No assistant messages found in session. Cannot determine model for compaction.'', st, [])"
  using assms by (auto simp: mode_compact_def truthy_def split: option.splits)

lemma mode_compact_resolved:
  assumes "js_or (a_providerID args) (inheritedProviderID inh) = Some providerID"
    and "js_or (a_modelID args) (inheritedModelID inh) = Some modelID"
    and "providerID \<noteq> []" and "modelID \<noteq> []"
  shows "mode_compact client args toolCtx inh dir st =
    (case session_prompt client (tc_sessionID toolCtx) dir (marker args) of
       Inl e \<Rightarrow> (Inl e, st, [Prompt (tc_sessionID toolCtx) dir (marker args)])
     | Inr u \<Rightarrow>
         (Inr (if truthy (a_agent args)
               then ''I'' @ [CHR 0x27] @ ''ll compact the session after completing this response, then hand off to ''
                      @ template (a_agent args) @ ''.''
               else ''I'' @ [CHR 0x27] @ ''ll compact the session after completing this response.''),
          st\<lparr>pendingCompactions := (pendingCompactions st)(tc_sessionID toolCtx \<mapsto>
                \<lparr>cr_providerID = providerID,
                 cr_modelID = modelID,
                 cr_agent = js_or (a_agent args) (inheritedAgent inh),
                 cr_system = js_or (a_system args) (inheritedSystem inh),
                 cr_tools = js_or (a_tools args) (inheritedTools inh),
                 cr_text = a_text args,
                 cr_directory = dir\<rparr>)\<rparr>,
          [Prompt (tc_sessionID toolCtx) dir (marker args)]))"
  using assms by (simp add: mode_compact_def)

lemma execute_message:
  assumes "a_mode args = Message"
    and "session_messages client (tc_sessionID toolCtx) (tc_directory toolCtx) = Inr data"
  shows "execute client P Sf args toolCtx st =
    (Inr (if truthy (a_agent args)
          then ''Message sent to '' @ template (a_agent args)
                 @ '' agent. They will respond in this conversation.''
          else ''Message sent. Awaiting response in this conversation.''),
     st\<lparr>pendingMessages := (pendingMessages st)(tc_sessionID toolCtx \<mapsto>
           \<lparr>pm_agent = js_or (a_agent args) (inheritedAgent (inherit Sf (lastAssistant data))),
            pm_modelID = js_or (a_modelID args) (inheritedModelID (inherit Sf (lastAssistant data))),
            pm_providerID = js_or (a_providerID args) (inheritedProviderID (inherit Sf (lastAssistant data))),
            pm_system = js_or (a_system args) (inheritedSystem (inherit Sf (lastAssistant data))),
            pm_tools = js_or (a_tools args) (inheritedTools (inherit Sf (lastAssistant data))),
            pm_text = a_text args,
            pm_directory = js_or_str (a_directory args) (tc_directory toolCtx)\<rparr>)\<rparr>,
     [Messages (tc_sessionID toolCtx) (tc_directory toolCtx)])"
  using assms by (simp add: execute_def execute_try_fetched mode_message_def)

lemma execute_message_stores:
  assumes "a_mode args = Message"
  shows "pendingCompactions (fst (snd (execute client P Sf args toolCtx st))) = pendingCompactions st
       \<and> activeCompactions (fst (snd (execute client P Sf args toolCtx st))) = activeCompactions st
       \<and> (\<forall>S. S \<noteq> tc_sessionID toolCtx \<longrightarrow>
             pendingMessages (fst (snd (execute client P Sf args toolCtx st))) S = pendingMessages st S)"
proof (cases "session_messages client (tc_sessionID toolCtx) (tc_directory toolCtx)")
  case (Inl e)
  then show ?thesis
    by (simp add: execute_def execute_try_def Let_def split: sum.splits)
next
  case (Inr data)
  with assms show ?thesis by (simp add: execute_message)
qed

lemma first_prompt_throw:
  assumes "c \<in> set (snd (first_prompt client P args inh sid dir agent))"
    and "thrown_by client c = Some e"
  shows "fst (first_prompt client P args inh sid dir agent) = Inl e"
  using assms by (auto simp: first_prompt_def split: sum.splits if_splits)

lemma mode_new_throw:
  assumes "c \<in> set (snd (snd (mode_new client P args inh dir st)))"
    and "thrown_by client c = Some e"
  shows "fst (mode_new client P args inh dir st) = Inl e
       \<and> fst (snd (mode_new client P args inh dir st)) = st"
proof (cases "session_create client dir (new_title args inh)")
  case (Inl e')
  with assms show ?thesis by (auto simp: mode_new_def)
next
  case (Inr newSession)
  obtain r calls where fp:
    "first_prompt client P args inh newSession dir
       (js_or_str (js_or (a_agent args) (inheritedAgent inh)) ''build'') = (r, calls)"
    by (cases "first_prompt client P args inh newSession dir
       (js_or_str (js_or (a_agent args) (inheritedAgent inh)) ''build'')")
  from assms Inr fp have "c \<in> set calls"
    by (auto simp: mode_new_def Let_def split: sum.splits)
  with first_prompt_throw [of c client P args inh newSession dir
      "js_or_str (js_or (a_agent args) (inheritedAgent inh)) ''build''" e] assms(2) fp
  have "r = Inl e" by simp
  with Inr fp show ?thesis by (simp add: mode_new_def Let_def)
qed

lemma mode_compact_throw:
  assumes "c \<in> set (snd (snd (mode_compact client args toolCtx inh dir st)))"
    and "thrown_by client c = Some e"
  shows "fst (mode_compact client args toolCtx inh dir st) = Inl e
       \<and> fst (snd (mode_compact client args toolCtx inh dir st)) = st"
  using assms
  by (auto simp: mode_compact_def split: option.splits sum.splits if_splits)

lemma mode_fork_throw:
  assumes "c \<in> set (snd (snd (mode_fork client P args toolCtx inh dir st)))"
    and "thrown_by client c = Some e"
  shows "fst (mode_fork client P args toolCtx inh dir st) = Inl e
       \<and> fst (snd (mode_fork client P args toolCtx inh dir st)) = st"
proof (cases "session_fork client (tc_sessionID toolCtx) dir")
  case (Inl e')
  with assms show ?thesis by (auto simp: mode_fork_def)
next
  case (Inr forkedSession)
  note forked = Inr
  obtain r calls where fp:
    "first_prompt client P args inh forkedSession dir
       (js_or_str (js_or (a_agent args) (inheritedAgent inh)) ''build'') = (r, calls)"
    by (cases "first_prompt client P args inh forkedSession dir
       (js_or_str (js_or (a_agent args) (inheritedAgent inh)) ''build'')")
  show ?thesis
  proof (cases "truthy (a_title args)")
    case False
    with assms forked fp have "c \<in> set calls"
      by (auto simp: mode_fork_def Let_def split: sum.splits)
    with first_prompt_throw [of c client P args inh forkedSession dir
        "js_or_str (js_or (a_agent args) (inheritedAgent inh)) ''build''" e] assms(2) fp
    have "r = Inl e" by simp
    with forked fp False show ?thesis by (simp add: mode_fork_def Let_def)
  next
    case True
    show ?thesis
    proof (cases "session_update client forkedSession dir (template (a_title args))")
      case (Inl e')
      with assms forked True show ?thesis by (auto simp: mode_fork_def)
    next
      case (Inr u)
      with assms forked fp True have "c \<in> set calls"
        by (auto simp: mode_fork_def Let_def split: sum.splits)
      with first_prompt_throw [of c client P args inh forkedSession dir
          "js_or_str (js_or (a_agent args) (inheritedAgent inh)) ''build''" e] assms(2) fp
      have "r = Inl e" by simp
      with forked fp True Inr show ?thesis by (simp add: mode_fork_def Let_def)
    qed
  qed
qed

lemma execute_try_throw:
  assumes "c \<in> set (snd (snd (execute_try client P Sf args toolCtx st)))"
    and "thrown_by client c = Some e"
  shows "fst (execute_try client P Sf args toolCtx st) = Inl e
       \<and> fst (snd (execute_try client P Sf args toolCtx st)) = st"
proof (cases "session_messages client (tc_sessionID toolCtx) (tc_directory toolCtx)")
  case (Inl e')
  with assms show ?thesis by (auto simp: execute_try_def Let_def)
next
  case (Inr data)
  show ?thesis
  proof (cases "a_mode args")
    case Message
    with assms Inr show ?thesis
      by (auto simp: execute_try_fetched mode_message_def)
  next
    case New
    with assms Inr
      mode_new_throw [of c client P args "inherit Sf (lastAssistant data)"
        "js_or_str (a_directory args) (tc_directory toolCtx)" st e]
    show ?thesis
      by (auto simp: execute_try_fetched split: prod.splits)
  next
    case Compact
    with assms Inr
      mode_compact_throw [of c client args toolCtx "inherit Sf (lastAssistant data)"
        "js_or_str (a_directory args) (tc_directory toolCtx)" st e]
    show ?thesis
      by (auto simp: execute_try_fetched split: prod.splits)
  next
    case Fork_mode
    with assms Inr
      mode_fork_throw [of c client P args toolCtx "inherit Sf (lastAssistant data)"
        "js_or_str (a_directory args) (tc_directory toolCtx)" st e]
    show ?thesis
      by (auto simp: execute_try_fetched split: prod.splits)
  qed
qed

lemma execute_caught:
  assumes "fst (execute_try client P Sf args toolCtx st) = Inl e"
  shows "execute client P Sf args toolCtx st =
    (case tui_showToast client (''Session operation failed: '' @ error_message e) ''error'' of
       Inl e' \<Rightarrow> Inl e'
     | Inr u \<Rightarrow> Inr (''Error: '' @ error_message e),
     fst (snd (execute_try client P Sf args toolCtx st)),
     snd (snd (execute_try client P Sf args toolCtx st))
       @ [ShowToast (''Session operation failed: '' @ error_message e) ''error''])"
  using assms
  by (cases "execute_try client P Sf args toolCtx st")
     (auto simp: execute_def Let_def split: sum.splits)

lemma lastAssistant_append:
  assumes "m_role m = ''assistant''" and "\<forall>x\<in>set post. m_role x \<noteq> ''assistant''"
  shows "lastAssistant (pre @ m # post) = Some m"
proof -
  from assms(2) have "filter (\<lambda>m. m_role m = ''assistant'') post = []"
    by (simp add: filter_empty_conv)
  with assms(1) show ?thesis by (simp add: lastAssistant_def)
qed

lemma lastAssistant_none:
  assumes "\<forall>x\<in>set data. m_role x \<noteq> ''assistant''"
  shows "lastAssistant data = None"
proof -
  from assms have "filter (\<lambda>m. m_role m = ''assistant'') data = []"
    by (simp add: filter_empty_conv)
  then show ?thesis by (simp add: lastAssistant_def)
qed

lemma build_when_no_agent:
  "\<not> truthy a \<Longrightarrow> js_or_str a ''build'' = ''build''"
  by (auto simp: js_or_str_def truthy_def split: option.splits)

lemma new_title_no_agent:
  "\<not> truthy (js_or (a_agent args) (inheritedAgent inh)) \<Longrightarrow>
   new_title args inh = js_or_str (a_title args) ''New session''"
  by (simp add: new_title_def)

lemma execute_keeps_calls:
  assumes "c \<in> set (snd (snd (execute_try client P Sf args toolCtx st)))"
  shows "c \<in> set (snd (snd (execute client P Sf args toolCtx st)))"
  using assms
  by (cases "execute_try client P Sf args toolCtx st")
     (auto simp: execute_def Let_def split: sum.splits)

lemma mode_new_sent:
  assumes "session_create client dir (new_title args inh) = Inr newSession"
    and "parse_tools P (js_or (a_tools args) (inheritedTools inh)) = Inr tools"
  shows "(if a_async args = Some True
          then PromptAsync newSession dir
                 (first_body args inh (js_or_str (js_or (a_agent args) (inheritedAgent inh)) ''build'') tools)
          else Prompt newSession dir
                 (first_body args inh (js_or_str (js_or (a_agent args) (inheritedAgent inh)) ''build'') tools))
         \<in> set (snd (snd (mode_new client P args inh dir st)))"
  using assms
  by (auto simp: mode_new_def first_prompt_def Let_def split: sum.splits)

lemma mode_fork_sent:
  assumes "session_fork client (tc_sessionID toolCtx) dir = Inr forkedSession"
    and "truthy (a_title args) \<longrightarrow>
           session_update client forkedSession dir (template (a_title args)) = Inr ()"
    and "parse_tools P (js_or (a_tools args) (inheritedTools inh)) = Inr tools"
  shows "(if a_async args = Some True
          then PromptAsync forkedSession dir
                 (first_body args inh (js_or_str (js_or (a_agent args) (inheritedAgent inh)) ''build'') tools)
          else Prompt forkedSession dir
                 (first_body args inh (js_or_str (js_or (a_agent args) (inheritedAgent inh)) ''build'') tools))
         \<in> set (snd (snd (mode_fork client P args toolCtx inh dir st)))"
  using assms
  by (auto simp: mode_fork_def first_prompt_def Let_def split: sum.splits)

lemma agent_or_build:
  "Some (js_or_str (js_or a i) ''build'') =
     (if truthy a then a else if truthy i then i else Some ''build'')"
  by (auto simp: js_or_str_def js_or_def truthy_def split: option.splits)

lemma first_body_fields:
  "pb_agent (first_body args inh (js_or_str (js_or (a_agent args) (inheritedAgent inh)) ''build'') tools)
     = (if truthy (a_agent args) then a_agent args
        else if truthy (inheritedAgent inh) then inheritedAgent inh else Some ''build'')
   \<and> pb_model (first_body args inh agent tools)
     = (if truthy (js_or (a_modelID args) (inheritedModelID inh))
        then Some \<lparr>mr_modelID = js_or (a_modelID args) (inheritedModelID inh),
                   mr_providerID = js_or (a_providerID args) (inheritedProviderID inh)\<rparr>
        else None)
   \<and> pb_system (first_body args inh agent tools) = js_or (a_system args) (inheritedSystem inh)
   \<and> pb_tools (first_body args inh agent tools) = tools"
  by (simp add: first_body_def agent_or_build)

lemma new_sent_by_execute:
  assumes "session_messages client (tc_sessionID toolCtx) (tc_directory toolCtx) = Inr data"
    and "a_mode args = New"
    and "session_create client (js_or_str (a_directory args) (tc_directory toolCtx))
           (new_title args (inherit Sf (lastAssistant data))) = Inr newSession"
    and "parse_tools P (js_or (a_tools args) (inheritedTools (inherit Sf (lastAssistant data))))
           = Inr tools"
  shows "(if a_async args = Some True
          then PromptAsync newSession (js_or_str (a_directory args) (tc_directory toolCtx))
                 (first_body args (inherit Sf (lastAssistant data))
                    (js_or_str (js_or (a_agent args) (inheritedAgent (inherit Sf (lastAssistant data)))) ''build'')
                    tools)
          else Prompt newSession (js_or_str (a_directory args) (tc_directory toolCtx))
                 (first_body args (inherit Sf (lastAssistant data))
                    (js_or_str (js_or (a_agent args) (inheritedAgent (inherit Sf (lastAssistant data)))) ''build'')
                    tools))
         \<in> set (snd (snd (execute client P Sf args toolCtx st)))"
proof (rule execute_keeps_calls)
  from mode_new_sent [OF assms(3,4), of st] assms(1,2)
  show "(if a_async args = Some True
          then PromptAsync newSession (js_or_str (a_directory args) (tc_directory toolCtx))
                 (first_body args (inherit Sf (lastAssistant data))
                    (js_or_str (js_or (a_agent args) (inheritedAgent (inherit Sf (lastAssistant data)))) ''build'')
                    tools)
          else Prompt newSession (js_or_str (a_directory args) (tc_directory toolCtx))
                 (first_body args (inherit Sf (lastAssistant data))
                    (js_or_str (js_or (a_agent args) (inheritedAgent (inherit Sf (lastAssistant data)))) ''build'')
                    tools))
         \<in> set (snd (snd (execute_try client P Sf args toolCtx st)))"
    by (auto simp: execute_try_fetched split: prod.splits)
qed

lemma fork_sent_by_execute:
  assumes "session_messages client (tc_sessionID toolCtx) (tc_directory toolCtx) = Inr data"
    and "a_mode args = Fork_mode"
    and "session_fork client (tc_sessionID toolCtx)
           (js_or_str (a_directory args) (tc_directory toolCtx)) = Inr forkedSession"
    and "truthy (a_title args) \<longrightarrow>
           session_update client forkedSession (js_or_str (a_directory args) (tc_directory toolCtx))
             (template (a_title args)) = Inr ()"
    and "parse_tools P (js_or (a_tools args) (inheritedTools (inherit Sf (lastAssistant data))))
           = Inr tools"
  shows "(if a_async args = Some True
          then PromptAsync forkedSession (js_or_str (a_directory args) (tc_directory toolCtx))
                 (first_body args (inherit Sf (lastAssistant data))
                    (js_or_str (js_or (a_agent args) (inheritedAgent (inherit Sf (lastAssistant data)))) ''build'')
                    tools)
          else Prompt forkedSession (js_or_str (a_directory args) (tc_directory toolCtx))
                 (first_body args (inherit Sf (lastAssistant data))
                    (js_or_str (js_or (a_agent args) (inheritedAgent (inherit Sf (lastAssistant data)))) ''build'')
                    tools))
         \<in> set (snd (snd (execute client P Sf args toolCtx st)))"
proof (rule execute_keeps_calls)
  from mode_fork_sent [OF assms(3,4,5), of st] assms(1,2)
  show "(if a_async args = Some True
          then PromptAsync forkedSession (js_or_str (a_directory args) (tc_directory toolCtx))
                 (first_body args (inherit Sf (lastAssistant data))
                    (js_or_str (js_or (a_agent args) (inheritedAgent (inherit Sf (lastAssistant data)))) ''build'')
                    tools)
          else Prompt forkedSession (js_or_str (a_directory args) (tc_directory toolCtx))
                 (first_body args (inherit Sf (lastAssistant data))
                    (js_or_str (js_or (a_agent args) (inheritedAgent (inherit Sf (lastAssistant data)))) ''build'')
                    tools))
         \<in> set (snd (snd (execute_try client P Sf args toolCtx st)))"
    by (auto simp: execute_try_fetched split: prod.splits)
qed

section \<open>The event hook: relay, promotion, continuation\<close>

text \<open>
  C1, as the code has it. For every session \<open>S\<close>, an \<^verbatim>\<open>idle\<close> event for \<open>S\<close> that finds a
  pending relay for \<open>S\<close> removes that entry and leaves the pending and active compactions
  as they were. When the staged tools string is absent, empty or parsed by \<^verbatim>\<open>JSON.parse\<close>,
  exactly one prompt is sent to \<open>S\<close>, in the staged directory, carrying the staged agent,
  system and text, the parsed tools, and the model pair when both the staged modelID and
  providerID are non-empty (no model otherwise). When \<^verbatim>\<open>JSON.parse\<close> throws on the
  staged tools string, no prompt is sent.
\<close>

theorem idle_relay:
  assumes "ev_type ev = ''session.idle''" and "ev_sessionID ev = Some S"
    and "pendingMessages st S = Some pm"
  shows "pendingMessages (fst (event JSON_parse ev st)) = (pendingMessages st)(S := None)
       \<and> pendingCompactions (fst (event JSON_parse ev st)) = pendingCompactions st
       \<and> activeCompactions (fst (event JSON_parse ev st)) = activeCompactions st
       \<and> snd (event JSON_parse ev st) =
           (case parse_tools JSON_parse (pm_tools pm) of
              Inl e \<Rightarrow> []
            | Inr tools \<Rightarrow>
                [Prompt S (pm_directory pm)
                   \<lparr>pb_agent = pm_agent pm,
                    pb_model =
                      (if truthy (pm_modelID pm) \<and> truthy (pm_providerID pm)
                       then Some \<lparr>mr_modelID = pm_modelID pm, mr_providerID = pm_providerID pm\<rparr>
                       else None),
                    pb_system = pm_system pm,
                    pb_tools = tools,
                    pb_noReply = None,
                    pb_parts = [pm_text pm]\<rparr>])"
  using assms by (simp add: event_idle idle_def staged_model_def split: sum.splits)

theorem idle_relay_witness:
  "ev_type (idle_event ''ses_1'') = ''session.idle''
   \<and> ev_sessionID (idle_event ''ses_1'') = Some ''ses_1''
   \<and> pendingMessages both_staged ''ses_1'' = Some relay_entry
   \<and> pendingMessages (fst (event JSON_parse_sample (idle_event ''ses_1'') both_staged)) ''ses_1'' = None
   \<and> pendingCompactions (fst (event JSON_parse_sample (idle_event ''ses_1'') both_staged)) ''ses_1''
       = Some compaction_entry
   \<and> snd (event JSON_parse_sample (idle_event ''ses_1'') both_staged) =
       [Prompt ''ses_1'' ''/work''
          \<lparr>pb_agent = Some ''plan'',
           pb_model = Some \<lparr>mr_modelID = Some ''m-1'', mr_providerID = Some ''p-1''\<rparr>,
           pb_system = None, pb_tools = Some [], pb_noReply = None, pb_parts = [''hello'']\<rparr>]"
  using idle_relay [of "idle_event ''ses_1''" "''ses_1''" both_staged relay_entry JSON_parse_sample]
  by (simp add: host_defs relay_entry_def compaction_entry_def both_staged_def js_defs)

text \<open>
  C1 as stated fails: a relay staged by the tool with the tools string \<^verbatim>\<open>not json\<close> is in
  the store, and the \<^verbatim>\<open>idle\<close> event for its session sends no prompt at all.
\<close>

theorem idle_relay_unparsed_tools:
  "pendingMessages unparsed_relay ''ses_1''
   = Some \<lparr>pm_agent = None, pm_modelID = None, pm_providerID = None, pm_system = None,
           pm_tools = Some ''not json'', pm_text = ''hello'', pm_directory = ''/work''\<rparr>
   \<and> snd (event JSON_parse_sample (idle_event ''ses_1'') unparsed_relay) = []"
  by (simp add: host_defs unparsed_relay_def tool_defs hook_defs js_defs)

text \<open>
  C2. For every session \<open>S\<close>, an \<^verbatim>\<open>idle\<close> event for \<open>S\<close> that finds no pending relay
  and a pending compaction for \<open>S\<close> removes the pending compaction, stores an active
  compaction for \<open>S\<close> with the same agent, modelID, providerID, system, tools, text and
  directory plus the phase \<^verbatim>\<open>compacting\<close>, leaves the relays alone, and issues exactly one
  call, a summarize for \<open>S\<close> with the staged providerID and modelID.
\<close>

theorem idle_compaction:
  assumes "ev_type ev = ''session.idle''" and "ev_sessionID ev = Some S"
    and "pendingMessages st S = None" and "pendingCompactions st S = Some c"
  shows "pendingCompactions (fst (event JSON_parse ev st)) = (pendingCompactions st)(S := None)
       \<and> activeCompactions (fst (event JSON_parse ev st)) =
           (activeCompactions st)(S \<mapsto>
              \<lparr>cs_phase = ''compacting'', cs_agent = cr_agent c,
               cs_modelID = Some (cr_modelID c), cs_providerID = Some (cr_providerID c),
               cs_system = cr_system c, cs_tools = cr_tools c, cs_text = cr_text c,
               cs_directory = cr_directory c\<rparr>)
       \<and> pendingMessages (fst (event JSON_parse ev st)) = pendingMessages st
       \<and> snd (event JSON_parse ev st) =
           [Summarize S (cr_directory c) (cr_providerID c) (cr_modelID c)]"
  using assms by (simp add: event_idle idle_def)

theorem idle_compaction_witness:
  "ev_type (idle_event ''ses_1'') = ''session.idle''
   \<and> ev_sessionID (idle_event ''ses_1'') = Some ''ses_1''
   \<and> pendingMessages compaction_staged ''ses_1'' = None
   \<and> pendingCompactions compaction_staged ''ses_1'' = Some compaction_entry
   \<and> pendingCompactions (fst (event JSON_parse_sample (idle_event ''ses_1'') compaction_staged)) ''ses_1'' = None
   \<and> activeCompactions (fst (event JSON_parse_sample (idle_event ''ses_1'') compaction_staged)) ''ses_1''
       = Some \<lparr>cs_phase = ''compacting'', cs_agent = Some ''plan'', cs_modelID = Some ''m-1'',
               cs_providerID = Some ''p-1'', cs_system = None, cs_tools = Some ''{}'',
               cs_text = ''carry on'', cs_directory = ''/work''\<rparr>
   \<and> snd (event JSON_parse_sample (idle_event ''ses_1'') compaction_staged)
       = [Summarize ''ses_1'' ''/work'' ''p-1'' ''m-1'']"
  using idle_compaction [of "idle_event ''ses_1''" "''ses_1''" compaction_staged compaction_entry
      JSON_parse_sample]
  by (simp add: host_defs compaction_entry_def compaction_staged_def)

text \<open>
  C3, as the code has it. For every session \<open>S\<close>, a \<^verbatim>\<open>compacted\<close> event for \<open>S\<close> that
  finds an active compaction for \<open>S\<close> deletes it, leaves the two pending stores alone and
  waits the fixed 100 ms. When the staged tools string is absent, empty or parsed by
  \<^verbatim>\<open>JSON.parse\<close>, exactly one prompt follows the wait, sent to \<open>S\<close> with the staged agent,
  system, text and directory, the parsed tools, and the model pair when both staged ids are
  non-empty; when \<^verbatim>\<open>JSON.parse\<close> throws on it, no prompt is sent. With no active
  compaction for \<open>S\<close> the event makes no call and changes no store.
\<close>

theorem compacted_continuation:
  assumes "ev_type ev = ''session.compacted''" and "ev_sessionID ev = Some S"
  shows "(\<forall>s. activeCompactions st S = Some s \<longrightarrow>
            activeCompactions (fst (event JSON_parse ev st)) = (activeCompactions st)(S := None)
          \<and> pendingMessages (fst (event JSON_parse ev st)) = pendingMessages st
          \<and> pendingCompactions (fst (event JSON_parse ev st)) = pendingCompactions st
          \<and> snd (event JSON_parse ev st) =
              SetTimeout 100 #
                (case parse_tools JSON_parse (cs_tools s) of
                   Inl e \<Rightarrow> []
                 | Inr tools \<Rightarrow>
                     [Prompt S (cs_directory s)
                        \<lparr>pb_agent = cs_agent s,
                         pb_model =
                           (if truthy (cs_modelID s) \<and> truthy (cs_providerID s)
                            then Some \<lparr>mr_modelID = cs_modelID s, mr_providerID = cs_providerID s\<rparr>
                            else None),
                         pb_system = cs_system s,
                         pb_tools = tools,
                         pb_noReply = None,
                         pb_parts = [cs_text s]\<rparr>]))
       \<and> (activeCompactions st S = None \<longrightarrow> event JSON_parse ev st = (st, []))"
  using assms by (simp add: event_compacted compacted_def staged_model_def split: sum.splits)

theorem compacted_continuation_witness:
  "ev_type (compacted_event ''ses_1'') = ''session.compacted''
   \<and> ev_sessionID (compacted_event ''ses_1'') = Some ''ses_1''
   \<and> activeCompactions (fst (event JSON_parse_sample (idle_event ''ses_1'') compaction_staged)) ''ses_1''
       = Some \<lparr>cs_phase = ''compacting'', cs_agent = Some ''plan'', cs_modelID = Some ''m-1'',
               cs_providerID = Some ''p-1'', cs_system = None, cs_tools = Some ''{}'',
               cs_text = ''carry on'', cs_directory = ''/work''\<rparr>
   \<and> activeCompactions
        (fst (event JSON_parse_sample (compacted_event ''ses_1'')
               (fst (event JSON_parse_sample (idle_event ''ses_1'') compaction_staged)))) ''ses_1'' = None
   \<and> snd (event JSON_parse_sample (compacted_event ''ses_1'')
            (fst (event JSON_parse_sample (idle_event ''ses_1'') compaction_staged)))
       = [SetTimeout 100,
          Prompt ''ses_1'' ''/work''
            \<lparr>pb_agent = Some ''plan'',
             pb_model = Some \<lparr>mr_modelID = Some ''m-1'', mr_providerID = Some ''p-1''\<rparr>,
             pb_system = None, pb_tools = Some [], pb_noReply = None, pb_parts = [''carry on'']\<rparr>]
   \<and> activeCompactions no_entries ''ses_1'' = None
   \<and> event JSON_parse_sample (compacted_event ''ses_1'') no_entries = (no_entries, [])"
  using compacted_continuation [of "compacted_event ''ses_1''" "''ses_1''"
      "fst (event JSON_parse_sample (idle_event ''ses_1'') compaction_staged)" JSON_parse_sample]
    compacted_continuation [of "compacted_event ''ses_1''" "''ses_1''" no_entries JSON_parse_sample]
  by (simp add: host_defs compacted_event_def compaction_entry_def compaction_staged_def
      hook_defs js_defs)

text \<open>
  C3 as stated fails: a compaction staged by the tool with the tools string \<^verbatim>\<open>not json\<close>
  and promoted on \<^verbatim>\<open>idle\<close> is active, and the \<^verbatim>\<open>compacted\<close> event for its session
  waits and then sends no prompt.
\<close>

theorem compacted_unparsed_tools:
  "map_option cs_tools (activeCompactions unparsed_compaction ''ses_1'') = Some (Some ''not json'')
   \<and> snd (event JSON_parse_sample (compacted_event ''ses_1'') unparsed_compaction) = [SetTimeout 100]"
  by (simp add: host_defs compacted_event_def unparsed_compaction_def tool_defs hook_defs js_defs)

text \<open>
  C6. When an \<^verbatim>\<open>idle\<close> event promotes the pending compaction of \<open>S\<close>, the one call it
  issues is the summarize for \<open>S\<close>. If that call is rejected, whatever the stores \<open>st'\<close>
  are by then, the handler deletes the active compaction of \<open>S\<close>, changes nothing else and
  makes no call: no second summarize, no toast. Rejected at once, it leaves the stores of
  before the event without the pending and without the active compaction of \<open>S\<close>.
\<close>

theorem summarize_rejected:
  assumes "ev_type ev = ''session.idle''" and "ev_sessionID ev = Some S"
    and "pendingMessages st S = None" and "pendingCompactions st S = Some c"
  shows "snd (event JSON_parse ev st) = [Summarize S (cr_directory c) (cr_providerID c) (cr_modelID c)]
       \<and> settled (Summarize S (cr_directory c) (cr_providerID c) (cr_modelID c)) True st'
           = (st'\<lparr>activeCompactions := (activeCompactions st')(S := None)\<rparr>, ([] :: 'j call list))
       \<and> fst (settled (Summarize S (cr_directory c) (cr_providerID c) (cr_modelID c) :: 'j call) True
                (fst (event JSON_parse ev st)))
           = st\<lparr>pendingCompactions := (pendingCompactions st)(S := None),
                activeCompactions := (activeCompactions st)(S := None)\<rparr>"
  using assms by (simp add: event_idle idle_def summarize_catch_def)

theorem summarize_rejected_witness:
  "ev_type (idle_event ''ses_1'') = ''session.idle''
   \<and> ev_sessionID (idle_event ''ses_1'') = Some ''ses_1''
   \<and> pendingMessages compaction_staged ''ses_1'' = None
   \<and> pendingCompactions compaction_staged ''ses_1'' = Some compaction_entry
   \<and> snd (event JSON_parse_sample (idle_event ''ses_1'') compaction_staged)
       = [Summarize ''ses_1'' ''/work'' ''p-1'' ''m-1'']
   \<and> settled (Summarize ''ses_1'' ''/work'' ''p-1'' ''m-1'' :: permissions call) True
        (fst (event JSON_parse_sample (idle_event ''ses_1'') compaction_staged))
       = (no_entries, [])"
  using summarize_rejected [of "idle_event ''ses_1''" "''ses_1''" compaction_staged compaction_entry
      JSON_parse_sample "fst (event JSON_parse_sample (idle_event ''ses_1'') compaction_staged)"]
  by (simp add: host_defs compaction_entry_def compaction_staged_def hook_defs
      summarize_catch_def js_defs)

section \<open>The session tool: staging\<close>

text \<open>
  C4. For every call of the tool in mode \<^verbatim>\<open>compact\<close> whose fetch of the history returns
  and leaves the providerID or the modelID unresolved (the argument is absent or empty, and
  so is the value of the last assistant message, if there is one), the tool returns exactly
  \<^verbatim>\<open>Error: No assistant messages found in session. Cannot determine model for compaction.\<close>,
  its only call is the fetch (no marker prompt, no summarize, no toast) and the three
  stores are unchanged, so nothing is staged.
\<close>

theorem compact_without_model:
  assumes "a_mode args = Compact"
    and "session_messages client (tc_sessionID toolCtx) (tc_directory toolCtx) = Inr data"
    and "\<not> truthy (js_or (a_providerID args)
                      (inheritedProviderID (inherit JSON_stringify (lastAssistant data))))
       \<or> \<not> truthy (js_or (a_modelID args)
                      (inheritedModelID (inherit JSON_stringify (lastAssistant data))))"
  shows "execute client JSON_parse JSON_stringify args toolCtx st =
    (Inr ''Error: No assistant messages found in session. Cannot determine model for compaction.'',
     st, [Messages (tc_sessionID toolCtx) (tc_directory toolCtx)])"
  using assms(1,2)
  by (simp add: execute_def execute_try_fetched mode_compact_guard [OF assms(3)])

theorem compact_without_model_witness:
  "a_mode (plain Compact ''carry on'') = Compact
   \<and> session_messages (sample_host [user_turn] False False) (tc_sessionID here) (tc_directory here)
       = Inr [user_turn]
   \<and> a_providerID (plain Compact ''carry on'') = None
   \<and> a_modelID (plain Compact ''carry on'') = None
   \<and> lastAssistant [user_turn] = None
   \<and> \<not> truthy (js_or (a_providerID (plain Compact ''carry on''))
                   (inheritedProviderID (inherit JSON_stringify_sample (lastAssistant [user_turn]))))
   \<and> execute (sample_host [user_turn] False False) JSON_parse_sample JSON_stringify_sample
        (plain Compact ''carry on'') here both_staged
       = (Inr ''Error: No assistant messages found in session. Cannot determine model for compaction.'',
          both_staged, [Messages ''ses_1'' ''/work''])"
  using compact_without_model [of "plain Compact ''carry on''" "sample_host [user_turn] False False"
      here "[user_turn]" JSON_stringify_sample JSON_parse_sample both_staged]
  by (simp add: host_defs relay_entry_def compaction_entry_def both_staged_def inherit_def
      lastAssistant_def js_defs)

text \<open>
  C5. Two calls of the tool in mode \<^verbatim>\<open>message\<close> for the same session \<open>S\<close>, one after
  the other with no event between them, the second with its history fetched (so that it
  stages), leave the relay store as it was before the first call but for one entry at
  \<open>S\<close>, and that entry is the payload of the second call: the stores are those the
  second call alone would have left, whatever the first call staged.
\<close>

theorem message_twice:
  assumes "a_mode args1 = Message" and "a_mode args2 = Message"
    and "tc_sessionID toolCtx1 = S" and "tc_sessionID toolCtx2 = S"
    and "session_messages client2 S (tc_directory toolCtx2) = Inr data2"
  shows "pendingMessages
           (fst (snd (execute client2 JSON_parse JSON_stringify args2 toolCtx2
              (fst (snd (execute client1 JSON_parse JSON_stringify args1 toolCtx1 st))))))
         = (pendingMessages st)(S \<mapsto>
             \<lparr>pm_agent = js_or (a_agent args2) (inheritedAgent (inherit JSON_stringify (lastAssistant data2))),
              pm_modelID = js_or (a_modelID args2) (inheritedModelID (inherit JSON_stringify (lastAssistant data2))),
              pm_providerID = js_or (a_providerID args2) (inheritedProviderID (inherit JSON_stringify (lastAssistant data2))),
              pm_system = js_or (a_system args2) (inheritedSystem (inherit JSON_stringify (lastAssistant data2))),
              pm_tools = js_or (a_tools args2) (inheritedTools (inherit JSON_stringify (lastAssistant data2))),
              pm_text = a_text args2,
              pm_directory = js_or_str (a_directory args2) (tc_directory toolCtx2)\<rparr>)
       \<and> fst (snd (execute client2 JSON_parse JSON_stringify args2 toolCtx2
              (fst (snd (execute client1 JSON_parse JSON_stringify args1 toolCtx1 st)))))
         = fst (snd (execute client2 JSON_parse JSON_stringify args2 toolCtx2 st))"
proof -
  let ?st1 = "fst (snd (execute client1 JSON_parse JSON_stringify args1 toolCtx1 st))"
  from execute_message_stores [OF assms(1), of client1 JSON_parse JSON_stringify toolCtx1 st] assms(3)
  have frame: "pendingCompactions ?st1 = pendingCompactions st"
    "activeCompactions ?st1 = activeCompactions st"
    "\<forall>S'. S' \<noteq> S \<longrightarrow> pendingMessages ?st1 S' = pendingMessages st S'"
    by simp_all
  then have upd: "\<And>v. (pendingMessages ?st1)(S \<mapsto> v) = (pendingMessages st)(S \<mapsto> v)"
    by (auto simp: fun_eq_iff)
  from assms(2,4,5) frame(1,2) show ?thesis
    by (simp add: execute_message upd)
qed

theorem message_twice_witness:
  "a_mode ((plain Message ''first'')\<lparr>a_agent := Some ''plan''\<rparr>) = Message
   \<and> a_mode ((plain Message ''second'')\<lparr>a_system := Some ''be brief''\<rparr>) = Message
   \<and> tc_sessionID here = ''ses_1''
   \<and> session_messages (sample_host [user_turn] True True) ''ses_1'' (tc_directory here) = Inr [user_turn]
   \<and> session_messages (sample_host [user_turn, build_turn] True True) ''ses_1'' (tc_directory here)
       = Inr [user_turn, build_turn]
   \<and> pendingMessages
        (fst (snd (execute (sample_host [user_turn] True True) JSON_parse_sample JSON_stringify_sample
                     ((plain Message ''first'')\<lparr>a_agent := Some ''plan''\<rparr>) here no_entries)))
        ''ses_1''
       = Some \<lparr>pm_agent = Some ''plan'', pm_modelID = None, pm_providerID = None, pm_system = None,
               pm_tools = None, pm_text = ''first'', pm_directory = ''/work''\<rparr>
   \<and> pendingMessages
        (fst (snd (execute (sample_host [user_turn, build_turn] True True) JSON_parse_sample
                     JSON_stringify_sample
                     ((plain Message ''second'')\<lparr>a_system := Some ''be brief''\<rparr>) here
           (fst (snd (execute (sample_host [user_turn] True True) JSON_parse_sample JSON_stringify_sample
                        ((plain Message ''first'')\<lparr>a_agent := Some ''plan''\<rparr>) here no_entries))))))
       = [''ses_1'' \<mapsto>
            \<lparr>pm_agent = Some ''build'', pm_modelID = Some ''m-1'', pm_providerID = Some ''p-1'',
             pm_system = Some ''be brief'', pm_tools = None, pm_text = ''second'',
             pm_directory = ''/work''\<rparr>]"
  using message_twice [of "(plain Message ''first'')\<lparr>a_agent := Some ''plan''\<rparr>"
      "(plain Message ''second'')\<lparr>a_system := Some ''be brief''\<rparr>" here "''ses_1''" here
      "sample_host [user_turn, build_turn] True True" "[user_turn, build_turn]"
      JSON_parse_sample JSON_stringify_sample "sample_host [user_turn] True True" no_entries]
  by (simp add: host_defs build_turn_def tool_defs js_defs)

text \<open>
  C10, as the code has it. In mode \<^verbatim>\<open>compact\<close> with the history fetched and both
  providerID and modelID resolved to non-empty strings: if the no-reply marker prompt
  throws, the three stores are unchanged (nothing is staged), the calls made are the fetch,
  the marker prompt and one error toast, and, when the toast call returns, the tool
  returns \<^verbatim>\<open>Error: \<close> followed by the message of what the prompt threw. If the marker
  prompt returns, the request is staged for the session and no further call is made.
\<close>

theorem compact_marker_throws:
  assumes "a_mode args = Compact"
    and "session_messages client (tc_sessionID toolCtx) (tc_directory toolCtx) = Inr data"
    and "js_or (a_providerID args) (inheritedProviderID (inherit JSON_stringify (lastAssistant data)))
           = Some providerID"
    and "js_or (a_modelID args) (inheritedModelID (inherit JSON_stringify (lastAssistant data)))
           = Some modelID"
    and "providerID \<noteq> []" and "modelID \<noteq> []"
  shows "(\<forall>e. session_prompt client (tc_sessionID toolCtx)
               (js_or_str (a_directory args) (tc_directory toolCtx)) (marker args) = Inl e \<longrightarrow>
            fst (snd (execute client JSON_parse JSON_stringify args toolCtx st)) = st
          \<and> snd (snd (execute client JSON_parse JSON_stringify args toolCtx st)) =
              [Messages (tc_sessionID toolCtx) (tc_directory toolCtx),
               Prompt (tc_sessionID toolCtx) (js_or_str (a_directory args) (tc_directory toolCtx))
                 (marker args),
               ShowToast (''Session operation failed: '' @ error_message e) ''error'']
          \<and> (tui_showToast client (''Session operation failed: '' @ error_message e) ''error'' = Inr ()
               \<longrightarrow> fst (execute client JSON_parse JSON_stringify args toolCtx st)
                     = Inr (''Error: '' @ error_message e)))
       \<and> (session_prompt client (tc_sessionID toolCtx)
               (js_or_str (a_directory args) (tc_directory toolCtx)) (marker args) = Inr () \<longrightarrow>
            pendingCompactions (fst (snd (execute client JSON_parse JSON_stringify args toolCtx st)))
              = (pendingCompactions st)(tc_sessionID toolCtx \<mapsto>
                  \<lparr>cr_providerID = providerID,
                   cr_modelID = modelID,
                   cr_agent = js_or (a_agent args) (inheritedAgent (inherit JSON_stringify (lastAssistant data))),
                   cr_system = js_or (a_system args) (inheritedSystem (inherit JSON_stringify (lastAssistant data))),
                   cr_tools = js_or (a_tools args) (inheritedTools (inherit JSON_stringify (lastAssistant data))),
                   cr_text = a_text args,
                   cr_directory = js_or_str (a_directory args) (tc_directory toolCtx)\<rparr>)
          \<and> snd (snd (execute client JSON_parse JSON_stringify args toolCtx st)) =
              [Messages (tc_sessionID toolCtx) (tc_directory toolCtx),
               Prompt (tc_sessionID toolCtx) (js_or_str (a_directory args) (tc_directory toolCtx))
                 (marker args)])"
  using assms(1,2)
  by (auto simp: execute_def execute_try_fetched mode_compact_resolved [OF assms(3-6)] Let_def
      split: sum.splits)

theorem compact_marker_throws_witness:
  "a_mode (plain Compact ''carry on'') = Compact
   \<and> session_messages (sample_host [build_turn, user_turn] False True) (tc_sessionID here)
        (tc_directory here) = Inr [build_turn, user_turn]
   \<and> js_or (a_providerID (plain Compact ''carry on''))
        (inheritedProviderID (inherit JSON_stringify_sample (lastAssistant [build_turn, user_turn])))
       = Some ''p-1''
   \<and> js_or (a_modelID (plain Compact ''carry on''))
        (inheritedModelID (inherit JSON_stringify_sample (lastAssistant [build_turn, user_turn])))
       = Some ''m-1''
   \<and> ''p-1'' \<noteq> [] \<and> ''m-1'' \<noteq> []
   \<and> session_prompt (sample_host [build_turn, user_turn] False True) ''ses_1'' ''/work''
        (marker (plain Compact ''carry on'')) = Inl refused
   \<and> tui_showToast (sample_host [build_turn, user_turn] False True)
        (''Session operation failed: '' @ error_message refused) ''error'' = Inr ()
   \<and> execute (sample_host [build_turn, user_turn] False True) JSON_parse_sample JSON_stringify_sample
        (plain Compact ''carry on'') here no_entries
       = (Inr ''Error: Unable to connect'', no_entries,
          [Messages ''ses_1'' ''/work'',
           Prompt ''ses_1'' ''/work''
             \<lparr>pb_agent = None, pb_model = None, pb_system = None, pb_tools = None,
              pb_noReply = Some True,
              pb_parts = [''[Session will compact after this response]'']\<rparr>,
           ShowToast ''Session operation failed: Unable to connect'' ''error''])
   \<and> session_prompt (sample_host [build_turn, user_turn] True True) ''ses_1'' ''/work''
        (marker (plain Compact ''carry on'')) = Inr ()
   \<and> pendingCompactions
        (fst (snd (execute (sample_host [build_turn, user_turn] True True) JSON_parse_sample
                     JSON_stringify_sample (plain Compact ''carry on'') here no_entries))) ''ses_1''
       = Some \<lparr>cr_providerID = ''p-1'', cr_modelID = ''m-1'', cr_agent = Some ''build'',
               cr_system = None, cr_tools = None, cr_text = ''carry on'', cr_directory = ''/work''\<rparr>"
  using compact_marker_throws [of "plain Compact ''carry on''"
      "sample_host [build_turn, user_turn] False True" here "[build_turn, user_turn]"
      JSON_stringify_sample "''p-1''" "''m-1''" JSON_parse_sample no_entries]
    compact_marker_throws [of "plain Compact ''carry on''"
      "sample_host [build_turn, user_turn] True True" here "[build_turn, user_turn]"
      JSON_stringify_sample "''p-1''" "''m-1''" JSON_parse_sample no_entries]
  by (simp add: host_defs build_turn_def tool_defs js_defs)

text \<open>
  C10 as stated fails where the toast throws as well: the marker prompt throws, and the
  tool does not return an \<^verbatim>\<open>Error: \<close> string, it throws.
\<close>

theorem compact_marker_and_toast_throw:
  "session_prompt (sample_host [build_turn, user_turn] False False) ''ses_1'' ''/work''
     (marker (plain Compact ''carry on'')) = Inl refused
   \<and> fst (execute (sample_host [build_turn, user_turn] False False) JSON_parse_sample
            JSON_stringify_sample (plain Compact ''carry on'') here no_entries)
       = Inl refused"
  by (simp add: host_defs build_turn_def tool_defs js_defs)

section \<open>The session tool: errors, inheritance, default agent\<close>

text \<open>
  C7, as the code has it. For every call of the tool, in any of the four modes: if a call
  on the client made inside the \<^verbatim>\<open>try\<close> (the fetch of the history, create, fork, title
  update, prompt) throws \<open>e\<close>, the error is caught, the stores are unchanged, and exactly
  one further call is made, the toast \<^verbatim>\<open>Session operation failed: \<close> with the message of
  \<open>e\<close>. When the toast call returns, the tool returns \<^verbatim>\<open>Error: \<close> followed by that
  message; when the toast call throws, what it throws leaves the tool.
\<close>

theorem remote_error_reported:
  assumes "c \<in> set (snd (snd (execute_try client JSON_parse JSON_stringify args toolCtx st)))"
    and "thrown_by client c = Some e"
  shows "snd (snd (execute client JSON_parse JSON_stringify args toolCtx st)) =
           snd (snd (execute_try client JSON_parse JSON_stringify args toolCtx st))
             @ [ShowToast (''Session operation failed: '' @ error_message e) ''error'']
       \<and> fst (snd (execute client JSON_parse JSON_stringify args toolCtx st)) = st
       \<and> (tui_showToast client (''Session operation failed: '' @ error_message e) ''error'' = Inr ()
            \<longrightarrow> fst (execute client JSON_parse JSON_stringify args toolCtx st)
                  = Inr (''Error: '' @ error_message e))
       \<and> (\<forall>e'. tui_showToast client (''Session operation failed: '' @ error_message e) ''error'' = Inl e'
            \<longrightarrow> fst (execute client JSON_parse JSON_stringify args toolCtx st) = Inl e')"
  using execute_try_throw [OF assms]
  by (simp add: execute_caught)

theorem remote_error_reported_witness:
  "Create ''/work'' ''New session''
     \<in> set (snd (snd (execute_try (sample_host [user_turn] False True) JSON_parse_sample
                         JSON_stringify_sample (plain New ''hello'') here no_entries)))
   \<and> thrown_by (sample_host [user_turn] False True) (Create ''/work'' ''New session'') = Some refused
   \<and> tui_showToast (sample_host [user_turn] False True)
        (''Session operation failed: '' @ error_message refused) ''error'' = Inr ()
   \<and> execute (sample_host [user_turn] False True) JSON_parse_sample JSON_stringify_sample
        (plain New ''hello'') here no_entries
       = (Inr ''Error: Unable to connect'', no_entries,
          [Messages ''ses_1'' ''/work'', Create ''/work'' ''New session'',
           ShowToast ''Session operation failed: Unable to connect'' ''error''])"
  using remote_error_reported [of "Create ''/work'' ''New session''"
      "sample_host [user_turn] False True" JSON_parse_sample JSON_stringify_sample
      "plain New ''hello''" here no_entries refused]
  by (simp add: host_defs tool_defs js_defs)

text \<open>
  C7 as stated fails where the toast throws as well: create throws, and the tool does not
  return an \<^verbatim>\<open>Error: \<close> string, it throws.
\<close>

theorem remote_and_toast_throw:
  "Create ''/work'' ''New session''
     \<in> set (snd (snd (execute (sample_host [user_turn] False False) JSON_parse_sample
                         JSON_stringify_sample (plain New ''hello'') here no_entries)))
   \<and> thrown_by (sample_host [user_turn] False False) (Create ''/work'' ''New session'') = Some refused
   \<and> fst (execute (sample_host [user_turn] False False) JSON_parse_sample JSON_stringify_sample
            (plain New ''hello'') here no_entries)
       = Inl refused"
  by (simp add: host_defs tool_defs js_defs)

text \<open>
  C8, as the code has it. The message inherited from is the last one of the fetched
  history, in the order the host returned it, whose role is \<^verbatim>\<open>assistant\<close>; with no such
  message nothing is inherited. In every mode each of agent, modelID, providerID, system
  and tools resolves field by field: to the caller's argument when that argument is a
  non-empty string, and otherwise (argument absent or empty) to the value of that field in
  the inherited message (the tools re-serialised by \<^verbatim>\<open>JSON.stringify\<close>), absent when
  there is none. Mode \<^verbatim>\<open>message\<close> stages the resolved fields in its relay and mode
  \<^verbatim>\<open>compact\<close> in its request; modes \<^verbatim>\<open>new\<close> and \<^verbatim>\<open>fork\<close> send them in the first
  prompt, the tools parsed, the agent \<^verbatim>\<open>build\<close> when none resolves, and modelID and
  providerID as the model pair when a modelID resolves.
\<close>

theorem context_inheritance:
  assumes "session_messages client (tc_sessionID toolCtx) (tc_directory toolCtx) = Inr data"
  shows "(\<forall>pre m post. data = pre @ m # post \<and> m_role m = ''assistant''
            \<and> (\<forall>x\<in>set post. m_role x \<noteq> ''assistant'') \<longrightarrow> lastAssistant data = Some m)
       \<and> ((\<forall>x\<in>set data. m_role x \<noteq> ''assistant'') \<longrightarrow> lastAssistant data = None)
       \<and> (a_mode args = Message \<longrightarrow>
            (\<exists>pm. pendingMessages (fst (snd (execute client JSON_parse JSON_stringify args toolCtx st)))
                     (tc_sessionID toolCtx) = Some pm
                 \<and> pm_agent pm =
                     (if truthy (a_agent args) then a_agent args
                      else Option.bind (lastAssistant data) m_agent)
                 \<and> pm_modelID pm =
                     (if truthy (a_modelID args) then a_modelID args
                      else Option.bind (lastAssistant data) m_modelID)
                 \<and> pm_providerID pm =
                     (if truthy (a_providerID args) then a_providerID args
                      else Option.bind (lastAssistant data) m_providerID)
                 \<and> pm_system pm =
                     (if truthy (a_system args) then a_system args
                      else Option.bind (lastAssistant data) m_system)
                 \<and> pm_tools pm =
                     (if truthy (a_tools args) then a_tools args
                      else map_option JSON_stringify (Option.bind (lastAssistant data) m_tools))))
       \<and> (a_mode args = Compact
            \<and> truthy (if truthy (a_providerID args) then a_providerID args
                           else Option.bind (lastAssistant data) m_providerID)
            \<and> truthy (if truthy (a_modelID args) then a_modelID args
                           else Option.bind (lastAssistant data) m_modelID)
            \<and> session_prompt client (tc_sessionID toolCtx)
                 (js_or_str (a_directory args) (tc_directory toolCtx)) (marker args) = Inr () \<longrightarrow>
            (\<exists>cr. pendingCompactions (fst (snd (execute client JSON_parse JSON_stringify args toolCtx st)))
                     (tc_sessionID toolCtx) = Some cr
                 \<and> cr_agent cr =
                     (if truthy (a_agent args) then a_agent args
                      else Option.bind (lastAssistant data) m_agent)
                 \<and> Some (cr_modelID cr) =
                     (if truthy (a_modelID args) then a_modelID args
                      else Option.bind (lastAssistant data) m_modelID)
                 \<and> Some (cr_providerID cr) =
                     (if truthy (a_providerID args) then a_providerID args
                      else Option.bind (lastAssistant data) m_providerID)
                 \<and> cr_system cr =
                     (if truthy (a_system args) then a_system args
                      else Option.bind (lastAssistant data) m_system)
                 \<and> cr_tools cr =
                     (if truthy (a_tools args) then a_tools args
                      else map_option JSON_stringify (Option.bind (lastAssistant data) m_tools))))
       \<and> (a_mode args = New \<longrightarrow>
            (\<forall>newSession tools.
               session_create client (js_or_str (a_directory args) (tc_directory toolCtx))
                 (new_title args (inherit JSON_stringify (lastAssistant data))) = Inr newSession
               \<and> parse_tools JSON_parse
                    (if truthy (a_tools args) then a_tools args
                     else map_option JSON_stringify (Option.bind (lastAssistant data) m_tools)) = Inr tools \<longrightarrow>
               (\<exists>body.
                  (if a_async args = Some True
                   then PromptAsync newSession (js_or_str (a_directory args) (tc_directory toolCtx)) body
                   else Prompt newSession (js_or_str (a_directory args) (tc_directory toolCtx)) body)
                    \<in> set (snd (snd (execute client JSON_parse JSON_stringify args toolCtx st)))
                \<and> pb_agent body =
                    (if truthy (a_agent args) then a_agent args
                     else if truthy (Option.bind (lastAssistant data) m_agent)
                          then Option.bind (lastAssistant data) m_agent else Some ''build'')
                \<and> pb_model body =
                    (if truthy (if truthy (a_modelID args) then a_modelID args
                                else Option.bind (lastAssistant data) m_modelID)
                     then Some \<lparr>mr_modelID =
                                  (if truthy (a_modelID args) then a_modelID args
                                   else Option.bind (lastAssistant data) m_modelID),
                                mr_providerID =
                                  (if truthy (a_providerID args) then a_providerID args
                                   else Option.bind (lastAssistant data) m_providerID)\<rparr>
                     else None)
                \<and> pb_system body =
                    (if truthy (a_system args) then a_system args
                     else Option.bind (lastAssistant data) m_system)
                \<and> pb_tools body = tools)))
       \<and> (a_mode args = Fork_mode \<longrightarrow>
            (\<forall>forkedSession tools.
               session_fork client (tc_sessionID toolCtx)
                 (js_or_str (a_directory args) (tc_directory toolCtx)) = Inr forkedSession
               \<and> (truthy (a_title args) \<longrightarrow>
                    session_update client forkedSession
                      (js_or_str (a_directory args) (tc_directory toolCtx))
                      (template (a_title args)) = Inr ())
               \<and> parse_tools JSON_parse
                    (if truthy (a_tools args) then a_tools args
                     else map_option JSON_stringify (Option.bind (lastAssistant data) m_tools)) = Inr tools \<longrightarrow>
               (\<exists>body.
                  (if a_async args = Some True
                   then PromptAsync forkedSession (js_or_str (a_directory args) (tc_directory toolCtx)) body
                   else Prompt forkedSession (js_or_str (a_directory args) (tc_directory toolCtx)) body)
                    \<in> set (snd (snd (execute client JSON_parse JSON_stringify args toolCtx st)))
                \<and> pb_agent body =
                    (if truthy (a_agent args) then a_agent args
                     else if truthy (Option.bind (lastAssistant data) m_agent)
                          then Option.bind (lastAssistant data) m_agent else Some ''build'')
                \<and> pb_model body =
                    (if truthy (if truthy (a_modelID args) then a_modelID args
                                else Option.bind (lastAssistant data) m_modelID)
                     then Some \<lparr>mr_modelID =
                                  (if truthy (a_modelID args) then a_modelID args
                                   else Option.bind (lastAssistant data) m_modelID),
                                mr_providerID =
                                  (if truthy (a_providerID args) then a_providerID args
                                   else Option.bind (lastAssistant data) m_providerID)\<rparr>
                     else None)
                \<and> pb_system body =
                    (if truthy (a_system args) then a_system args
                     else Option.bind (lastAssistant data) m_system)
                \<and> pb_tools body = tools)))"
proof -
  let ?inh = "inherit JSON_stringify (lastAssistant data)"
  have tools: "inheritedTools ?inh = map_option JSON_stringify (Option.bind (lastAssistant data) m_tools)"
    by (simp add: inherit_def split: option.splits)
  have fields:
    "inheritedAgent ?inh = Option.bind (lastAssistant data) m_agent"
    "inheritedModelID ?inh = Option.bind (lastAssistant data) m_modelID"
    "inheritedProviderID ?inh = Option.bind (lastAssistant data) m_providerID"
    "inheritedSystem ?inh = Option.bind (lastAssistant data) m_system"
    by (simp_all add: inherit_def)
  have message: "a_mode args = Message \<longrightarrow>
      (\<exists>pm. pendingMessages (fst (snd (execute client JSON_parse JSON_stringify args toolCtx st)))
               (tc_sessionID toolCtx) = Some pm
           \<and> pm_agent pm = js_or (a_agent args) (inheritedAgent ?inh)
           \<and> pm_modelID pm = js_or (a_modelID args) (inheritedModelID ?inh)
           \<and> pm_providerID pm = js_or (a_providerID args) (inheritedProviderID ?inh)
           \<and> pm_system pm = js_or (a_system args) (inheritedSystem ?inh)
           \<and> pm_tools pm = js_or (a_tools args) (inheritedTools ?inh))"
    using assms by (simp add: execute_message)
  have compact: "a_mode args = Compact
            \<and> truthy (js_or (a_providerID args) (inheritedProviderID ?inh))
            \<and> truthy (js_or (a_modelID args) (inheritedModelID ?inh))
            \<and> session_prompt client (tc_sessionID toolCtx)
                 (js_or_str (a_directory args) (tc_directory toolCtx)) (marker args) = Inr () \<longrightarrow>
      (\<exists>cr. pendingCompactions (fst (snd (execute client JSON_parse JSON_stringify args toolCtx st)))
               (tc_sessionID toolCtx) = Some cr
           \<and> cr_agent cr = js_or (a_agent args) (inheritedAgent ?inh)
           \<and> Some (cr_modelID cr) = js_or (a_modelID args) (inheritedModelID ?inh)
           \<and> Some (cr_providerID cr) = js_or (a_providerID args) (inheritedProviderID ?inh)
           \<and> cr_system cr = js_or (a_system args) (inheritedSystem ?inh)
           \<and> cr_tools cr = js_or (a_tools args) (inheritedTools ?inh))"
  proof (intro impI, elim conjE)
    assume mode: "a_mode args = Compact"
      and p: "truthy (js_or (a_providerID args) (inheritedProviderID ?inh))"
      and m: "truthy (js_or (a_modelID args) (inheritedModelID ?inh))"
      and sent: "session_prompt client (tc_sessionID toolCtx)
                 (js_or_str (a_directory args) (tc_directory toolCtx)) (marker args) = Inr ()"
    from p obtain providerID where p': "js_or (a_providerID args) (inheritedProviderID ?inh) = Some providerID"
      and pn: "providerID \<noteq> []"
      by (auto simp: truthy_def split: option.splits)
    from m obtain modelID where m': "js_or (a_modelID args) (inheritedModelID ?inh) = Some modelID"
      and mn: "modelID \<noteq> []"
      by (auto simp: truthy_def split: option.splits)
    show "\<exists>cr. pendingCompactions (fst (snd (execute client JSON_parse JSON_stringify args toolCtx st)))
               (tc_sessionID toolCtx) = Some cr
           \<and> cr_agent cr = js_or (a_agent args) (inheritedAgent ?inh)
           \<and> Some (cr_modelID cr) = js_or (a_modelID args) (inheritedModelID ?inh)
           \<and> Some (cr_providerID cr) = js_or (a_providerID args) (inheritedProviderID ?inh)
           \<and> cr_system cr = js_or (a_system args) (inheritedSystem ?inh)
           \<and> cr_tools cr = js_or (a_tools args) (inheritedTools ?inh)"
      using assms mode sent
      by (simp add: execute_def execute_try_fetched mode_compact_resolved [OF p' m' pn mn] p' m')
  qed
  have new: "a_mode args = New \<longrightarrow>
       (\<forall>newSession tools.
          session_create client (js_or_str (a_directory args) (tc_directory toolCtx))
            (new_title args ?inh) = Inr newSession
          \<and> parse_tools JSON_parse (js_or (a_tools args) (inheritedTools ?inh)) = Inr tools \<longrightarrow>
          (\<exists>body.
             (if a_async args = Some True
              then PromptAsync newSession (js_or_str (a_directory args) (tc_directory toolCtx)) body
              else Prompt newSession (js_or_str (a_directory args) (tc_directory toolCtx)) body)
               \<in> set (snd (snd (execute client JSON_parse JSON_stringify args toolCtx st)))
           \<and> pb_agent body =
               (if truthy (a_agent args) then a_agent args
                else if truthy (inheritedAgent ?inh) then inheritedAgent ?inh else Some ''build'')
           \<and> pb_model body =
               (if truthy (js_or (a_modelID args) (inheritedModelID ?inh))
                then Some \<lparr>mr_modelID = js_or (a_modelID args) (inheritedModelID ?inh),
                           mr_providerID = js_or (a_providerID args) (inheritedProviderID ?inh)\<rparr>
                else None)
           \<and> pb_system body = js_or (a_system args) (inheritedSystem ?inh)
           \<and> pb_tools body = tools))"
  proof (intro impI allI, elim conjE)
    fix newSession tools
    assume mode: "a_mode args = New"
      and created: "session_create client (js_or_str (a_directory args) (tc_directory toolCtx))
            (new_title args ?inh) = Inr newSession"
      and parsed: "parse_tools JSON_parse (js_or (a_tools args) (inheritedTools ?inh)) = Inr tools"
    let ?body = "first_body args ?inh (js_or_str (js_or (a_agent args) (inheritedAgent ?inh)) ''build'') tools"
    have "(if a_async args = Some True
           then PromptAsync newSession (js_or_str (a_directory args) (tc_directory toolCtx)) ?body
           else Prompt newSession (js_or_str (a_directory args) (tc_directory toolCtx)) ?body)
          \<in> set (snd (snd (execute client JSON_parse JSON_stringify args toolCtx st)))"
      by (rule new_sent_by_execute [OF assms mode created parsed])
    with first_body_fields [of args ?inh tools "js_or_str (js_or (a_agent args) (inheritedAgent ?inh)) ''build''"]
    show "\<exists>body.
             (if a_async args = Some True
              then PromptAsync newSession (js_or_str (a_directory args) (tc_directory toolCtx)) body
              else Prompt newSession (js_or_str (a_directory args) (tc_directory toolCtx)) body)
               \<in> set (snd (snd (execute client JSON_parse JSON_stringify args toolCtx st)))
           \<and> pb_agent body =
               (if truthy (a_agent args) then a_agent args
                else if truthy (inheritedAgent ?inh) then inheritedAgent ?inh else Some ''build'')
           \<and> pb_model body =
               (if truthy (js_or (a_modelID args) (inheritedModelID ?inh))
                then Some \<lparr>mr_modelID = js_or (a_modelID args) (inheritedModelID ?inh),
                           mr_providerID = js_or (a_providerID args) (inheritedProviderID ?inh)\<rparr>
                else None)
           \<and> pb_system body = js_or (a_system args) (inheritedSystem ?inh)
           \<and> pb_tools body = tools"
      by (intro exI [of _ ?body]) simp
  qed
  have fork: "a_mode args = Fork_mode \<longrightarrow>
       (\<forall>forkedSession tools.
          session_fork client (tc_sessionID toolCtx)
            (js_or_str (a_directory args) (tc_directory toolCtx)) = Inr forkedSession
          \<and> (truthy (a_title args) \<longrightarrow>
               session_update client forkedSession
                 (js_or_str (a_directory args) (tc_directory toolCtx))
                 (template (a_title args)) = Inr ())
          \<and> parse_tools JSON_parse (js_or (a_tools args) (inheritedTools ?inh)) = Inr tools \<longrightarrow>
          (\<exists>body.
             (if a_async args = Some True
              then PromptAsync forkedSession (js_or_str (a_directory args) (tc_directory toolCtx)) body
              else Prompt forkedSession (js_or_str (a_directory args) (tc_directory toolCtx)) body)
               \<in> set (snd (snd (execute client JSON_parse JSON_stringify args toolCtx st)))
           \<and> pb_agent body =
               (if truthy (a_agent args) then a_agent args
                else if truthy (inheritedAgent ?inh) then inheritedAgent ?inh else Some ''build'')
           \<and> pb_model body =
               (if truthy (js_or (a_modelID args) (inheritedModelID ?inh))
                then Some \<lparr>mr_modelID = js_or (a_modelID args) (inheritedModelID ?inh),
                           mr_providerID = js_or (a_providerID args) (inheritedProviderID ?inh)\<rparr>
                else None)
           \<and> pb_system body = js_or (a_system args) (inheritedSystem ?inh)
           \<and> pb_tools body = tools))"
  proof (intro impI allI, elim conjE)
    fix forkedSession tools
    assume mode: "a_mode args = Fork_mode"
      and forked: "session_fork client (tc_sessionID toolCtx)
            (js_or_str (a_directory args) (tc_directory toolCtx)) = Inr forkedSession"
      and retitled: "truthy (a_title args) \<longrightarrow>
               session_update client forkedSession
                 (js_or_str (a_directory args) (tc_directory toolCtx))
                 (template (a_title args)) = Inr ()"
      and parsed: "parse_tools JSON_parse (js_or (a_tools args) (inheritedTools ?inh)) = Inr tools"
    let ?body = "first_body args ?inh (js_or_str (js_or (a_agent args) (inheritedAgent ?inh)) ''build'') tools"
    have "(if a_async args = Some True
           then PromptAsync forkedSession (js_or_str (a_directory args) (tc_directory toolCtx)) ?body
           else Prompt forkedSession (js_or_str (a_directory args) (tc_directory toolCtx)) ?body)
          \<in> set (snd (snd (execute client JSON_parse JSON_stringify args toolCtx st)))"
      by (rule fork_sent_by_execute [OF assms mode forked retitled parsed])
    with first_body_fields [of args ?inh tools "js_or_str (js_or (a_agent args) (inheritedAgent ?inh)) ''build''"]
    show "\<exists>body.
             (if a_async args = Some True
              then PromptAsync forkedSession (js_or_str (a_directory args) (tc_directory toolCtx)) body
              else Prompt forkedSession (js_or_str (a_directory args) (tc_directory toolCtx)) body)
               \<in> set (snd (snd (execute client JSON_parse JSON_stringify args toolCtx st)))
           \<and> pb_agent body =
               (if truthy (a_agent args) then a_agent args
                else if truthy (inheritedAgent ?inh) then inheritedAgent ?inh else Some ''build'')
           \<and> pb_model body =
               (if truthy (js_or (a_modelID args) (inheritedModelID ?inh))
                then Some \<lparr>mr_modelID = js_or (a_modelID args) (inheritedModelID ?inh),
                           mr_providerID = js_or (a_providerID args) (inheritedProviderID ?inh)\<rparr>
                else None)
           \<and> pb_system body = js_or (a_system args) (inheritedSystem ?inh)
           \<and> pb_tools body = tools"
      by (intro exI [of _ ?body]) simp
  qed
  have select: "\<forall>pre m post. data = pre @ m # post \<and> m_role m = ''assistant''
            \<and> (\<forall>x\<in>set post. m_role x \<noteq> ''assistant'') \<longrightarrow> lastAssistant data = Some m"
    by (auto simp: lastAssistant_append)
  have none: "(\<forall>x\<in>set data. m_role x \<noteq> ''assistant'') \<longrightarrow> lastAssistant data = None"
    by (simp add: lastAssistant_none)
  from message compact new fork select none show ?thesis
    unfolding js_or_def tools fields by blast
qed

theorem context_inheritance_witness:
  "session_messages (sample_host ([build_turn, user_turn] @ plan_turn # [user_turn]) True True)
     (tc_sessionID here) (tc_directory here) = Inr ([build_turn, user_turn] @ plan_turn # [user_turn])
   \<and> m_role plan_turn = ''assistant''
   \<and> m_role user_turn \<noteq> ''assistant''
   \<and> lastAssistant ([build_turn, user_turn] @ plan_turn # [user_turn]) = Some plan_turn
   \<and> a_mode ((plain Message ''hello'')\<lparr>a_agent := Some ''review''\<rparr>) = Message
   \<and> pendingMessages
        (fst (snd (execute (sample_host ([build_turn, user_turn] @ plan_turn # [user_turn]) True True)
                     JSON_parse_sample JSON_stringify_sample
                     ((plain Message ''hello'')\<lparr>a_agent := Some ''review''\<rparr>) here no_entries)))
        ''ses_1''
       = Some \<lparr>pm_agent = Some ''review'', pm_modelID = Some ''m-old'', pm_providerID = Some ''p-old'',
               pm_system = Some ''be brief'',
               pm_tools = Some (''{'' @ [CHR 0x22] @ ''read'' @ [CHR 0x22] @ '':true}''),
               pm_text = ''hello'', pm_directory = ''/work''\<rparr>
   \<and> session_messages (sample_host [user_turn] True True) (tc_sessionID here) (tc_directory here)
       = Inr [user_turn]
   \<and> lastAssistant [user_turn] = None
   \<and> pendingMessages
        (fst (snd (execute (sample_host [user_turn] True True) JSON_parse_sample JSON_stringify_sample
                     ((plain Message ''hello'')\<lparr>a_agent := Some ''review''\<rparr>) here no_entries)))
        ''ses_1''
       = Some \<lparr>pm_agent = Some ''review'', pm_modelID = None, pm_providerID = None,
               pm_system = None, pm_tools = None, pm_text = ''hello'', pm_directory = ''/work''\<rparr>
   \<and> session_messages (sample_host [build_turn, user_turn] True True) (tc_sessionID here)
        (tc_directory here) = Inr [build_turn, user_turn]
   \<and> a_mode ((plain Compact ''carry on'')\<lparr>a_modelID := Some ''m-new''\<rparr>) = Compact
   \<and> truthy (a_modelID ((plain Compact ''carry on'')\<lparr>a_modelID := Some ''m-new''\<rparr>))
   \<and> \<not> truthy (a_providerID ((plain Compact ''carry on'')\<lparr>a_modelID := Some ''m-new''\<rparr>))
   \<and> truthy (Option.bind (lastAssistant [build_turn, user_turn]) m_providerID)
   \<and> session_prompt (sample_host [build_turn, user_turn] True True) ''ses_1'' ''/work''
        (marker ((plain Compact ''carry on'')\<lparr>a_modelID := Some ''m-new''\<rparr>)) = Inr ()
   \<and> pendingCompactions
        (fst (snd (execute (sample_host [build_turn, user_turn] True True) JSON_parse_sample
                     JSON_stringify_sample
                     ((plain Compact ''carry on'')\<lparr>a_modelID := Some ''m-new''\<rparr>) here no_entries)))
        ''ses_1''
       = Some \<lparr>cr_providerID = ''p-1'', cr_modelID = ''m-new'', cr_agent = Some ''build'',
               cr_system = None, cr_tools = None, cr_text = ''carry on'', cr_directory = ''/work''\<rparr>
   \<and> a_mode ((plain New ''hello'')\<lparr>a_system := Some ''be terse'', a_providerID := Some ''p-new''\<rparr>) = New
   \<and> session_create (sample_host [build_turn, user_turn] True True) ''/work''
        (new_title ((plain New ''hello'')\<lparr>a_system := Some ''be terse'', a_providerID := Some ''p-new''\<rparr>)
           (inherit JSON_stringify_sample (lastAssistant [build_turn, user_turn]))) = Inr ''ses_2''
   \<and> parse_tools JSON_parse_sample
        (if truthy (a_tools ((plain New ''hello'')\<lparr>a_system := Some ''be terse'', a_providerID := Some ''p-new''\<rparr>))
         then a_tools ((plain New ''hello'')\<lparr>a_system := Some ''be terse'', a_providerID := Some ''p-new''\<rparr>)
         else map_option JSON_stringify_sample (Option.bind (lastAssistant [build_turn, user_turn]) m_tools))
       = Inr None
   \<and> execute (sample_host [build_turn, user_turn] True True) JSON_parse_sample JSON_stringify_sample
        ((plain New ''hello'')\<lparr>a_system := Some ''be terse'', a_providerID := Some ''p-new''\<rparr>) here no_entries
       = (Inr ''New session created with build agent (ID: ses_2)'', no_entries,
          [Messages ''ses_1'' ''/work'', Create ''/work'' ''Session via build'',
           Prompt ''ses_2'' ''/work''
             \<lparr>pb_agent = Some ''build'',
              pb_model = Some \<lparr>mr_modelID = Some ''m-1'', mr_providerID = Some ''p-new''\<rparr>,
              pb_system = Some ''be terse'', pb_tools = None, pb_noReply = None,
              pb_parts = [''hello'']\<rparr>])
   \<and> a_mode ((plain Fork_mode ''hello'')\<lparr>a_agent := Some ''review'', a_tools := Some ''{}''\<rparr>) = Fork_mode
   \<and> session_fork (sample_host [build_turn, user_turn] True True) ''ses_1'' ''/work'' = Inr ''ses_3''
   \<and> \<not> truthy (a_title ((plain Fork_mode ''hello'')\<lparr>a_agent := Some ''review'', a_tools := Some ''{}''\<rparr>))
   \<and> parse_tools JSON_parse_sample
        (if truthy (a_tools ((plain Fork_mode ''hello'')\<lparr>a_agent := Some ''review'', a_tools := Some ''{}''\<rparr>))
         then a_tools ((plain Fork_mode ''hello'')\<lparr>a_agent := Some ''review'', a_tools := Some ''{}''\<rparr>)
         else map_option JSON_stringify_sample (Option.bind (lastAssistant [build_turn, user_turn]) m_tools))
       = Inr (Some [])
   \<and> execute (sample_host [build_turn, user_turn] True True) JSON_parse_sample JSON_stringify_sample
        ((plain Fork_mode ''hello'')\<lparr>a_agent := Some ''review'', a_tools := Some ''{}''\<rparr>) here no_entries
       = (Inr ''Forked session with review agent - history preserved (ID: ses_3)'', no_entries,
          [Messages ''ses_1'' ''/work'', Fork ''ses_1'' ''/work'',
           Prompt ''ses_3'' ''/work''
             \<lparr>pb_agent = Some ''review'',
              pb_model = Some \<lparr>mr_modelID = Some ''m-1'', mr_providerID = Some ''p-1''\<rparr>,
              pb_system = None, pb_tools = Some [], pb_noReply = None,
              pb_parts = [''hello'']\<rparr>])"
  using context_inheritance [of "sample_host ([build_turn, user_turn] @ plan_turn # [user_turn]) True True"
      here "[build_turn, user_turn] @ plan_turn # [user_turn]"
      "(plain Message ''hello'')\<lparr>a_agent := Some ''review''\<rparr>"
      JSON_parse_sample JSON_stringify_sample no_entries]
    context_inheritance [of "sample_host [user_turn] True True" here "[user_turn]"
      "(plain Message ''hello'')\<lparr>a_agent := Some ''review''\<rparr>"
      JSON_parse_sample JSON_stringify_sample no_entries]
    context_inheritance [of "sample_host [build_turn, user_turn] True True" here
      "[build_turn, user_turn]" "(plain Compact ''carry on'')\<lparr>a_modelID := Some ''m-new''\<rparr>"
      JSON_parse_sample JSON_stringify_sample no_entries]
    context_inheritance [of "sample_host [build_turn, user_turn] True True" here
      "[build_turn, user_turn]"
      "(plain New ''hello'')\<lparr>a_system := Some ''be terse'', a_providerID := Some ''p-new''\<rparr>"
      JSON_parse_sample JSON_stringify_sample no_entries]
    context_inheritance [of "sample_host [build_turn, user_turn] True True" here
      "[build_turn, user_turn]"
      "(plain Fork_mode ''hello'')\<lparr>a_agent := Some ''review'', a_tools := Some ''{}''\<rparr>"
      JSON_parse_sample JSON_stringify_sample no_entries]
  by (simp add: host_defs plan_turn_def build_turn_def tool_defs js_defs)

text \<open>
  C8 as stated fails for an argument given as the empty string: the caller passes
  \<^verbatim>\<open>agent: ""\<close>, and the staged agent is the inherited \<^verbatim>\<open>plan\<close>.
\<close>

theorem empty_argument_does_not_override:
  "a_agent ((plain Message ''hello'')\<lparr>a_agent := Some ''''\<rparr>) = Some ''''
   \<and> map_option pm_agent
        (pendingMessages
           (fst (snd (execute (sample_host [user_turn, plan_turn] True True) JSON_parse_sample
                        JSON_stringify_sample
                        ((plain Message ''hello'')\<lparr>a_agent := Some ''''\<rparr>) here no_entries)))
           ''ses_1'')
       = Some (Some ''plan'')"
  by (simp add: host_defs plan_turn_def tool_defs js_defs)

text \<open>
  C9. In modes \<^verbatim>\<open>new\<close> and \<^verbatim>\<open>fork\<close>, with the history fetched, the tools string parsed
  and neither the agent argument nor the inherited agent a non-empty string (in particular
  when both are absent): once the session is created (or forked and, if asked, retitled),
  the prompt into it is sent with agent \<^verbatim>\<open>build\<close>, never without an agent; and when that
  prompt returns, it is the only prompt made and the acknowledgement names \<^verbatim>\<open>build\<close>.
\<close>

theorem default_agent_build:
  assumes "session_messages client (tc_sessionID toolCtx) (tc_directory toolCtx) = Inr data"
    and "\<not> truthy (js_or (a_agent args)
                      (inheritedAgent (inherit JSON_stringify (lastAssistant data))))"
    and "parse_tools JSON_parse
           (js_or (a_tools args) (inheritedTools (inherit JSON_stringify (lastAssistant data))))
         = Inr tools"
  shows "pb_agent (first_body args (inherit JSON_stringify (lastAssistant data)) ''build'' tools)
           = Some ''build''
       \<and> (a_mode args = New \<longrightarrow>
            (\<forall>newSession.
               session_create client (js_or_str (a_directory args) (tc_directory toolCtx))
                 (js_or_str (a_title args) ''New session'') = Inr newSession \<longrightarrow>
               (if a_async args = Some True
                then PromptAsync newSession (js_or_str (a_directory args) (tc_directory toolCtx))
                       (first_body args (inherit JSON_stringify (lastAssistant data)) ''build'' tools)
                else Prompt newSession (js_or_str (a_directory args) (tc_directory toolCtx))
                       (first_body args (inherit JSON_stringify (lastAssistant data)) ''build'' tools))
                 \<in> set (snd (snd (execute client JSON_parse JSON_stringify args toolCtx st)))
             \<and> ((if a_async args = Some True
                  then session_promptAsync client newSession
                         (js_or_str (a_directory args) (tc_directory toolCtx))
                         (first_body args (inherit JSON_stringify (lastAssistant data)) ''build'' tools)
                  else session_prompt client newSession
                         (js_or_str (a_directory args) (tc_directory toolCtx))
                         (first_body args (inherit JSON_stringify (lastAssistant data)) ''build'' tools))
                 = Inr () \<longrightarrow>
                 execute client JSON_parse JSON_stringify args toolCtx st =
                   (Inr (if a_async args = Some True
                         then ''New session created with build agent (async prompt, ID: ''
                                @ newSession @ '')''
                         else ''New session created with build agent (ID: '' @ newSession @ '')''),
                    st,
                    [Messages (tc_sessionID toolCtx) (tc_directory toolCtx),
                     Create (js_or_str (a_directory args) (tc_directory toolCtx))
                       (js_or_str (a_title args) ''New session''),
                     if a_async args = Some True
                     then PromptAsync newSession (js_or_str (a_directory args) (tc_directory toolCtx))
                            (first_body args (inherit JSON_stringify (lastAssistant data)) ''build'' tools)
                     else Prompt newSession (js_or_str (a_directory args) (tc_directory toolCtx))
                            (first_body args (inherit JSON_stringify (lastAssistant data)) ''build'' tools)]))))
       \<and> (a_mode args = Fork_mode \<longrightarrow>
            (\<forall>forkedSession.
               session_fork client (tc_sessionID toolCtx)
                 (js_or_str (a_directory args) (tc_directory toolCtx)) = Inr forkedSession
               \<and> (truthy (a_title args) \<longrightarrow>
                    session_update client forkedSession
                      (js_or_str (a_directory args) (tc_directory toolCtx))
                      (template (a_title args)) = Inr ()) \<longrightarrow>
               (if a_async args = Some True
                then PromptAsync forkedSession (js_or_str (a_directory args) (tc_directory toolCtx))
                       (first_body args (inherit JSON_stringify (lastAssistant data)) ''build'' tools)
                else Prompt forkedSession (js_or_str (a_directory args) (tc_directory toolCtx))
                       (first_body args (inherit JSON_stringify (lastAssistant data)) ''build'' tools))
                 \<in> set (snd (snd (execute client JSON_parse JSON_stringify args toolCtx st)))
             \<and> ((if a_async args = Some True
                  then session_promptAsync client forkedSession
                         (js_or_str (a_directory args) (tc_directory toolCtx))
                         (first_body args (inherit JSON_stringify (lastAssistant data)) ''build'' tools)
                  else session_prompt client forkedSession
                         (js_or_str (a_directory args) (tc_directory toolCtx))
                         (first_body args (inherit JSON_stringify (lastAssistant data)) ''build'' tools))
                 = Inr () \<longrightarrow>
                 execute client JSON_parse JSON_stringify args toolCtx st =
                   (Inr (if a_async args = Some True
                         then ''Forked session with build agent (async prompt) - history preserved (ID: ''
                                @ forkedSession @ '')''
                         else ''Forked session with build agent - history preserved (ID: ''
                                @ forkedSession @ '')''),
                    st,
                    Messages (tc_sessionID toolCtx) (tc_directory toolCtx)
                    # Fork (tc_sessionID toolCtx) (js_or_str (a_directory args) (tc_directory toolCtx))
                    # (if truthy (a_title args)
                       then [Update forkedSession (js_or_str (a_directory args) (tc_directory toolCtx))
                               (template (a_title args))]
                       else [])
                    @ [if a_async args = Some True
                       then PromptAsync forkedSession (js_or_str (a_directory args) (tc_directory toolCtx))
                              (first_body args (inherit JSON_stringify (lastAssistant data)) ''build'' tools)
                       else Prompt forkedSession (js_or_str (a_directory args) (tc_directory toolCtx))
                              (first_body args (inherit JSON_stringify (lastAssistant data)) ''build'' tools)]))))"
proof (intro conjI impI allI)
  show "pb_agent (first_body args (inherit JSON_stringify (lastAssistant data)) ''build'' tools)
          = Some ''build''"
    by (simp add: first_body_def)
next
  fix newSession
  assume "a_mode args = New"
    and "session_create client (js_or_str (a_directory args) (tc_directory toolCtx))
           (js_or_str (a_title args) ''New session'') = Inr newSession"
  with assms(1,3)
  show "(if a_async args = Some True
         then PromptAsync newSession (js_or_str (a_directory args) (tc_directory toolCtx))
                (first_body args (inherit JSON_stringify (lastAssistant data)) ''build'' tools)
         else Prompt newSession (js_or_str (a_directory args) (tc_directory toolCtx))
                (first_body args (inherit JSON_stringify (lastAssistant data)) ''build'' tools))
          \<in> set (snd (snd (execute client JSON_parse JSON_stringify args toolCtx st)))"
    by (auto simp: execute_def execute_try_fetched mode_new_def first_prompt_def Let_def
        build_when_no_agent [OF assms(2)] new_title_no_agent [OF assms(2)] split: sum.splits)
next
  fix newSession
  assume "a_mode args = New"
    and "session_create client (js_or_str (a_directory args) (tc_directory toolCtx))
           (js_or_str (a_title args) ''New session'') = Inr newSession"
    and "(if a_async args = Some True
          then session_promptAsync client newSession
                 (js_or_str (a_directory args) (tc_directory toolCtx))
                 (first_body args (inherit JSON_stringify (lastAssistant data)) ''build'' tools)
          else session_prompt client newSession
                 (js_or_str (a_directory args) (tc_directory toolCtx))
                 (first_body args (inherit JSON_stringify (lastAssistant data)) ''build'' tools))
         = Inr ()"
  with assms(1,3)
  show "execute client JSON_parse JSON_stringify args toolCtx st =
          (Inr (if a_async args = Some True
                then ''New session created with build agent (async prompt, ID: ''
                       @ newSession @ '')''
                else ''New session created with build agent (ID: '' @ newSession @ '')''),
           st,
           [Messages (tc_sessionID toolCtx) (tc_directory toolCtx),
            Create (js_or_str (a_directory args) (tc_directory toolCtx))
              (js_or_str (a_title args) ''New session''),
            if a_async args = Some True
            then PromptAsync newSession (js_or_str (a_directory args) (tc_directory toolCtx))
                   (first_body args (inherit JSON_stringify (lastAssistant data)) ''build'' tools)
            else Prompt newSession (js_or_str (a_directory args) (tc_directory toolCtx))
                   (first_body args (inherit JSON_stringify (lastAssistant data)) ''build'' tools)])"
    by (auto simp: execute_def execute_try_fetched mode_new_def first_prompt_def Let_def
        build_when_no_agent [OF assms(2)] new_title_no_agent [OF assms(2)] split: if_splits)
next
  fix forkedSession
  assume "a_mode args = Fork_mode"
    and "session_fork client (tc_sessionID toolCtx)
           (js_or_str (a_directory args) (tc_directory toolCtx)) = Inr forkedSession
         \<and> (truthy (a_title args) \<longrightarrow>
              session_update client forkedSession
                (js_or_str (a_directory args) (tc_directory toolCtx))
                (template (a_title args)) = Inr ())"
  with assms(1,3)
  show "(if a_async args = Some True
         then PromptAsync forkedSession (js_or_str (a_directory args) (tc_directory toolCtx))
                (first_body args (inherit JSON_stringify (lastAssistant data)) ''build'' tools)
         else Prompt forkedSession (js_or_str (a_directory args) (tc_directory toolCtx))
                (first_body args (inherit JSON_stringify (lastAssistant data)) ''build'' tools))
          \<in> set (snd (snd (execute client JSON_parse JSON_stringify args toolCtx st)))"
    by (auto simp: execute_def execute_try_fetched mode_fork_def first_prompt_def Let_def
        build_when_no_agent [OF assms(2)] split: sum.splits)
next
  fix forkedSession
  assume "a_mode args = Fork_mode"
    and "session_fork client (tc_sessionID toolCtx)
           (js_or_str (a_directory args) (tc_directory toolCtx)) = Inr forkedSession
         \<and> (truthy (a_title args) \<longrightarrow>
              session_update client forkedSession
                (js_or_str (a_directory args) (tc_directory toolCtx))
                (template (a_title args)) = Inr ())"
    and "(if a_async args = Some True
          then session_promptAsync client forkedSession
                 (js_or_str (a_directory args) (tc_directory toolCtx))
                 (first_body args (inherit JSON_stringify (lastAssistant data)) ''build'' tools)
          else session_prompt client forkedSession
                 (js_or_str (a_directory args) (tc_directory toolCtx))
                 (first_body args (inherit JSON_stringify (lastAssistant data)) ''build'' tools))
         = Inr ()"
  with assms(1,3)
  show "execute client JSON_parse JSON_stringify args toolCtx st =
          (Inr (if a_async args = Some True
                then ''Forked session with build agent (async prompt) - history preserved (ID: ''
                       @ forkedSession @ '')''
                else ''Forked session with build agent - history preserved (ID: ''
                       @ forkedSession @ '')''),
           st,
           Messages (tc_sessionID toolCtx) (tc_directory toolCtx)
           # Fork (tc_sessionID toolCtx) (js_or_str (a_directory args) (tc_directory toolCtx))
           # (if truthy (a_title args)
              then [Update forkedSession (js_or_str (a_directory args) (tc_directory toolCtx))
                      (template (a_title args))]
              else [])
           @ [if a_async args = Some True
              then PromptAsync forkedSession (js_or_str (a_directory args) (tc_directory toolCtx))
                     (first_body args (inherit JSON_stringify (lastAssistant data)) ''build'' tools)
              else Prompt forkedSession (js_or_str (a_directory args) (tc_directory toolCtx))
                     (first_body args (inherit JSON_stringify (lastAssistant data)) ''build'' tools)])"
    by (auto simp: execute_def execute_try_fetched mode_fork_def first_prompt_def Let_def
        build_when_no_agent [OF assms(2)] split: if_splits)
qed

theorem default_agent_build_witness:
  "session_messages (sample_host [user_turn] True True) (tc_sessionID here) (tc_directory here)
     = Inr [user_turn]
   \<and> a_agent (plain New ''hello'') = None
   \<and> inheritedAgent (inherit JSON_stringify_sample (lastAssistant [user_turn])) = None
   \<and> \<not> truthy (js_or (a_agent (plain New ''hello''))
                   (inheritedAgent (inherit JSON_stringify_sample (lastAssistant [user_turn]))))
   \<and> parse_tools JSON_parse_sample
        (js_or (a_tools (plain New ''hello''))
           (inheritedTools (inherit JSON_stringify_sample (lastAssistant [user_turn])))) = Inr None
   \<and> a_mode (plain New ''hello'') = New
   \<and> session_create (sample_host [user_turn] True True) ''/work'' ''New session'' = Inr ''ses_2''
   \<and> session_prompt (sample_host [user_turn] True True) ''ses_2'' ''/work''
        (first_body (plain New ''hello'') (inherit JSON_stringify_sample (lastAssistant [user_turn]))
           ''build'' None) = Inr ()
   \<and> execute (sample_host [user_turn] True True) JSON_parse_sample JSON_stringify_sample
        (plain New ''hello'') here no_entries
       = (Inr ''New session created with build agent (ID: ses_2)'', no_entries,
          [Messages ''ses_1'' ''/work'', Create ''/work'' ''New session'',
           Prompt ''ses_2'' ''/work''
             \<lparr>pb_agent = Some ''build'', pb_model = None, pb_system = None, pb_tools = None,
              pb_noReply = None, pb_parts = [''hello'']\<rparr>])
   \<and> a_mode ((plain Fork_mode ''hello'')\<lparr>a_title := Some ''Branch A'', a_async := Some True\<rparr>)
       = Fork_mode
   \<and> session_fork (sample_host [user_turn] True True) ''ses_1'' ''/work'' = Inr ''ses_3''
   \<and> session_update (sample_host [user_turn] True True) ''ses_3'' ''/work'' ''Branch A'' = Inr ()
   \<and> session_promptAsync (sample_host [user_turn] True True) ''ses_3'' ''/work''
        (first_body ((plain Fork_mode ''hello'')\<lparr>a_title := Some ''Branch A'', a_async := Some True\<rparr>)
           (inherit JSON_stringify_sample (lastAssistant [user_turn])) ''build'' None) = Inr ()
   \<and> execute (sample_host [user_turn] True True) JSON_parse_sample JSON_stringify_sample
        ((plain Fork_mode ''hello'')\<lparr>a_title := Some ''Branch A'', a_async := Some True\<rparr>)
        here no_entries
       = (Inr ''Forked session with build agent (async prompt) - history preserved (ID: ses_3)'',
          no_entries,
          [Messages ''ses_1'' ''/work'', Fork ''ses_1'' ''/work'',
           Update ''ses_3'' ''/work'' ''Branch A'',
           PromptAsync ''ses_3'' ''/work''
             \<lparr>pb_agent = Some ''build'', pb_model = None, pb_system = None, pb_tools = None,
              pb_noReply = None, pb_parts = [''hello'']\<rparr>])"
  using default_agent_build [of "sample_host [user_turn] True True" here "[user_turn]"
      "plain New ''hello''" JSON_stringify_sample JSON_parse_sample None no_entries]
    default_agent_build [of "sample_host [user_turn] True True" here "[user_turn]"
      "(plain Fork_mode ''hello'')\<lparr>a_title := Some ''Branch A'', a_async := Some True\<rparr>"
      JSON_stringify_sample JSON_parse_sample None no_entries]
  by (simp add: host_defs tool_defs js_defs)

end
